theory Spec2Isabelle
  imports Complex_Main "HOL-Library.AList"
begin

section \<open>Values and failures\<close>

text \<open>
  The Python exceptions the modelled code can raise. A raising computation is \<open>Inl\<close> of the
  exception, a returning one \<open>Inr\<close> of its value.
\<close>

datatype error = IndexError | KeyError | ZeroDivisionError | ValueError | AttributeError | TypeError | UnboundLocalError

definition ebind :: "error + 'a \<Rightarrow> ('a \<Rightarrow> error + 'b) \<Rightarrow> error + 'b" where
  "ebind m f = (case m of Inl e \<Rightarrow> Inl e | Inr a \<Rightarrow> f a)"

text \<open>
  Floating-point numbers are idealised: a float is an exact real number, or \<open>NaN\<close>, which stands
  for every float that is no real number (numpy's \<open>nan\<close> and \<open>inf\<close>). Rounding and overflow
  are not modelled, except for the rounding of the one subtraction in the loop of
  Physics.advance. numpy arithmetic does not raise: dividing by zero or taking the square root
  of a negative number gives \<open>NaN\<close>, and \<open>NaN\<close> propagates through every operation.
\<close>

datatype npfloat = Fin real | NaN

instantiation npfloat :: "{plus, minus, uminus, times, inverse}"
begin

fun plus_npfloat :: "npfloat \<Rightarrow> npfloat \<Rightarrow> npfloat" where
  "plus_npfloat (Fin a) (Fin b) = Fin (a + b)"
| "plus_npfloat _ _ = NaN"

fun minus_npfloat :: "npfloat \<Rightarrow> npfloat \<Rightarrow> npfloat" where
  "minus_npfloat (Fin a) (Fin b) = Fin (a - b)"
| "minus_npfloat _ _ = NaN"

fun uminus_npfloat :: "npfloat \<Rightarrow> npfloat" where
  "uminus_npfloat (Fin a) = Fin (- a)"
| "uminus_npfloat NaN = NaN"

fun times_npfloat :: "npfloat \<Rightarrow> npfloat \<Rightarrow> npfloat" where
  "times_npfloat (Fin a) (Fin b) = Fin (a * b)"
| "times_npfloat _ _ = NaN"

fun divide_npfloat :: "npfloat \<Rightarrow> npfloat \<Rightarrow> npfloat" where
  "divide_npfloat (Fin a) (Fin b) = (if b = 0 then NaN else Fin (a / b))"
| "divide_npfloat _ _ = NaN"

fun inverse_npfloat :: "npfloat \<Rightarrow> npfloat" where
  "inverse_npfloat (Fin a) = (if a = 0 then NaN else Fin (inverse a))"
| "inverse_npfloat NaN = NaN"

instance ..

end

text \<open>
  \<open>numpy.square\<close>, \<open>numpy.sqrt\<close>, \<open>**\<close> with a literal integer exponent and \<open>**\<close> with
  a real exponent; the trigonometric functions of numpy apply to the real number.
\<close>

definition np_square :: "npfloat \<Rightarrow> npfloat" where
  "np_square a = a * a"

fun np_sqrt :: "npfloat \<Rightarrow> npfloat" where
  "np_sqrt (Fin a) = (if a < 0 then NaN else Fin (sqrt a))"
| "np_sqrt NaN = NaN"

fun np_pow_int :: "npfloat \<Rightarrow> nat \<Rightarrow> npfloat" where
  "np_pow_int (Fin a) n = Fin (a ^ n)"
| "np_pow_int NaN n = NaN"

fun np_apply :: "(real \<Rightarrow> real) \<Rightarrow> npfloat \<Rightarrow> npfloat" where
  "np_apply g (Fin a) = Fin (g a)"
| "np_apply g NaN = NaN"

definition np_rad2deg :: "npfloat \<Rightarrow> npfloat" where
  "np_rad2deg = np_apply (\<lambda>a. a * 180 / pi)"

definition np_deg2rad :: "npfloat \<Rightarrow> npfloat" where
  "np_deg2rad = np_apply (\<lambda>a. a * pi / 180)"

fun np_power :: "npfloat \<Rightarrow> real \<Rightarrow> npfloat" where
  "np_power (Fin a) p = (if a < 0 then NaN else Fin (a powr p))"
| "np_power NaN p = NaN"

text \<open>
  \<open>f[i]\<close> for a literal index \<open>i \<ge> 0\<close>: the element, or IndexError when the sequence is too
  short.
\<close>

definition getitem :: "'a list \<Rightarrow> nat \<Rightarrow> error + 'a" where
  "getitem xs i = (if i < length xs then Inr (xs ! i) else Inl IndexError)"

section \<open>Physics: the differential equations\<close>

text \<open>
  \<open>CentralGravity.diff_eq(t, f)\<close> of \<open>lib/Physics.py\<close>; \<open>G\<close> and \<open>M\<close> are the attributes
  \<open>self.G\<close> and \<open>self.M\<close> set by the constructor. The division is numpy's, as on the arrays
  the solvers pass and on the numpy floats a body holds once it has been advanced: at the
  origin the accelerations are NaN. (On Python floats the same division raises
  ZeroDivisionError at the origin.)
\<close>

definition CentralGravity_diff_eq :: "real \<Rightarrow> real \<Rightarrow> real \<Rightarrow> npfloat list \<Rightarrow> error + npfloat list" where
  "CentralGravity_diff_eq G M t f =
     ebind (getitem f 0) (\<lambda>f0. ebind (getitem f 1) (\<lambda>f1. ebind (getitem f 2) (\<lambda>f2.
     let rad = np_power (np_pow_int f0 2 + np_pow_int f1 2 + np_pow_int f2 2) (3 / 2) in
     ebind (getitem f 3) (\<lambda>drxdt. ebind (getitem f 4) (\<lambda>drydt. ebind (getitem f 5) (\<lambda>drzdt.
     let k = Fin (G * M);
         dvxdt = - (k * f0) / rad;
         dvydt = - (k * f1) / rad;
         dvzdt = - (k * f2) / rad
     in Inr [drxdt, drydt, drzdt, dvxdt, dvydt, dvzdt]))))))"




text \<open>
  The class of a solver instance. \<open>Physics.__init__(self, solver, dt_max=0.001)\<close> stores the
  solver and the largest substep.
\<close>

datatype solver = Solver | Euler | RK2 | RK4

text \<open>
  \<open>Cooling\<close>. Its constructor evaluates \<open>super.dt_max\<close> before it calls
  \<open>super().__init__(solver)\<close>. The bare name \<open>super\<close> is Python's builtin type, which has no
  attribute \<open>dt_max\<close>: the attribute access raises AttributeError.
\<close>

record Cooling =
  c_solver :: solver
  c_Ta :: real
  c_k :: real
  c_dt_max :: real

definition super_dt_max :: "error + real" where
  "super_dt_max = Inl AttributeError"

definition Cooling_init :: "solver \<Rightarrow> real \<Rightarrow> real \<Rightarrow> error + Cooling" where
  "Cooling_init solver Ta k =
     ebind super_dt_max (\<lambda>d.
       let self = \<lparr>c_solver = solver, c_Ta = Ta, c_k = k, c_dt_max = d\<rparr>;
           self = self\<lparr>c_solver := solver, c_dt_max := 1 / 1000\<rparr>
       in Inr self)"

definition Cooling_diff_eq :: "Cooling \<Rightarrow> real \<Rightarrow> npfloat \<Rightarrow> npfloat" where
  "Cooling_diff_eq self t T = (let k = c_k self; Ta = c_Ta self in Fin k * (Fin Ta - T))"

text \<open>\<open>CentralGravity.__init__(self, solver, planetMass=1, gravConstant=4*np.pi**2)\<close>.\<close>

record CentralGravity =
  cg_solver :: solver
  cg_G :: real
  cg_M :: real
  cg_dt_max :: real

definition CentralGravity_init :: "solver \<Rightarrow> CentralGravity" where
  "CentralGravity_init solver = \<lparr>cg_solver = solver, cg_G = 4 * pi\<^sup>2, cg_M = 1, cg_dt_max = 1 / 1000\<rparr>"

section \<open>Solver: one step of integration\<close>

text \<open>
  numpy arithmetic on one-dimensional arrays. A scalar times an array scales every element.
  Two arrays are added element by element when their lengths agree; an array of length one is
  broadcast over the other; any other pair of lengths raises ValueError.
\<close>

definition np_scale :: "real \<Rightarrow> npfloat list \<Rightarrow> npfloat list" where
  "np_scale c a = map (\<lambda>u. Fin c * u) a"

definition np_add :: "npfloat list \<Rightarrow> npfloat list \<Rightarrow> error + npfloat list" where
  "np_add a b =
     (if length a = length b then Inr (map2 (+) a b)
      else if length b = 1 then Inr (map (\<lambda>u. u + hd b) a)
      else if length a = 1 then Inr (map (\<lambda>u. hd a + u) b)
      else Inl ValueError)"

text \<open>
  The state a solver advances is a Python float (the temperature of a ThermalBody, the
  population of a PopulationBody) or a sequence of floats: the list that \<open>GravBody.state\<close>
  returns, or the numpy array that the solvers and the derivative functions return. A list
  and an array are one constructor, with the arithmetic of numpy: in the solvers a list is
  only ever added to an array, which numpy does element by element.
\<close>

datatype state = Scalar npfloat | Array "npfloat list"

text \<open>
  \<open>f[i]\<close> and \<open>f[:n]\<close>: a float cannot be subscripted (TypeError). A number times a state,
  the sum of two states (a float is broadcast over an array), and \<open>numpy.append(f, m)\<close>.
\<close>

fun subscript :: "state \<Rightarrow> nat \<Rightarrow> error + npfloat" where
  "subscript (Scalar u) i = Inl TypeError"
| "subscript (Array a) i = getitem a i"

fun slice_to :: "state \<Rightarrow> nat \<Rightarrow> error + state" where
  "slice_to (Scalar u) n = Inl TypeError"
| "slice_to (Array a) n = Inr (Array (take n a))"

fun state_scale :: "real \<Rightarrow> state \<Rightarrow> state" where
  "state_scale c (Scalar u) = Scalar (Fin c * u)"
| "state_scale c (Array a) = Array (np_scale c a)"

fun state_add :: "state \<Rightarrow> state \<Rightarrow> error + state" where
  "state_add (Scalar u) (Scalar w) = Inr (Scalar (u + w))"
| "state_add (Scalar u) (Array b) = Inr (Array (map (\<lambda>w. u + w) b))"
| "state_add (Array a) (Scalar w) = Inr (Array (map (\<lambda>u. u + w) a))"
| "state_add (Array a) (Array b) = (case np_add a b of Inl e \<Rightarrow> Inl e | Inr c \<Rightarrow> Inr (Array c))"

fun np_append :: "state \<Rightarrow> npfloat \<Rightarrow> state" where
  "np_append (Scalar u) m = Array [u, m]"
| "np_append (Array a) m = Array (a @ [m])"

text \<open>
  The method \<open>diff_eq\<close> as the solvers call it, on a state. The derivative functions of
  CentralGravity and UniformGravity index the state, which raises TypeError on a float, and
  return \<open>numpy.array([...])\<close>. Those of Cooling and LogisticPopGrowth compute with the
  state as a number and are stated for a float; on a sequence the model has the TypeError
  that Python raises for a list.
\<close>

fun on_array ::
  "(real \<Rightarrow> npfloat list \<Rightarrow> error + npfloat list) \<Rightarrow> real \<Rightarrow> state \<Rightarrow> error + state" where
  "on_array diff_eq t (Scalar u) = Inl TypeError"
| "on_array diff_eq t (Array f) =
     (case diff_eq t f of Inl e \<Rightarrow> Inl e | Inr dfdt \<Rightarrow> Inr (Array dfdt))"


text \<open>
  The solvers of \<open>lib/Solver.py\<close>. \<open>physics\<close> is \<open>self.physics.diff_eq\<close>, the derivative
  function of the physics instance the solver refers to. The arithmetic of the solvers is
  exact.
\<close>

definition Euler_advance ::
  "(real \<Rightarrow> state \<Rightarrow> error + state) \<Rightarrow> real \<Rightarrow> state \<Rightarrow> real \<Rightarrow> error + real \<times> state" where
  "Euler_advance physics x f dx =
     (let xnext = x + dx in
      ebind (physics x f) (\<lambda>d.
      ebind (state_add f (state_scale dx d)) (\<lambda>fnext.
      Inr (xnext, fnext))))"

definition RK2_advance ::
  "(real \<Rightarrow> state \<Rightarrow> error + state) \<Rightarrow> real \<Rightarrow> state \<Rightarrow> real \<Rightarrow> error + real \<times> state" where
  "RK2_advance physics x f dx =
     (let xnext = x + dx in
      ebind (physics x f) (\<lambda>k1.
      ebind (state_add f (state_scale dx (state_scale (1 / 2) k1))) (\<lambda>f2.
      ebind (physics (x + 1 / 2 * dx) f2) (\<lambda>k2.
      ebind (state_add f (state_scale dx k2)) (\<lambda>fnext.
      Inr (xnext, fnext))))))"

definition RK4_advance ::
  "(real \<Rightarrow> state \<Rightarrow> error + state) \<Rightarrow> real \<Rightarrow> state \<Rightarrow> real \<Rightarrow> error + real \<times> state" where
  "RK4_advance physics x f0 dx =
     ebind (subscript f0 6) (\<lambda>mass.
     ebind (slice_to f0 6) (\<lambda>f.
     let xnext = x + dx in
     ebind (physics x f) (\<lambda>k1.
     ebind (state_add f (state_scale dx (state_scale (1 / 2) k1))) (\<lambda>f2.
     ebind (physics (x + 1 / 2 * dx) f2) (\<lambda>k2.
     ebind (state_add f (state_scale dx (state_scale (1 / 2) k2))) (\<lambda>f3.
     ebind (physics (x + 1 / 2 * dx) f3) (\<lambda>k3.
     ebind (state_add f (state_scale dx k3)) (\<lambda>f4.
     ebind (physics (x + dx) f4) (\<lambda>k4.
     ebind (state_add k1 (state_scale 2 k2)) (\<lambda>s2.
     ebind (state_add s2 (state_scale 2 k3)) (\<lambda>s3.
     ebind (state_add s3 k4) (\<lambda>s4.
     ebind (state_add f (state_scale dx (state_scale (1 / 6) s4))) (\<lambda>fnext.
     Inr (xnext, np_append fnext mass))))))))))))))"

text \<open>
  \<open>self.solver.advance\<close>, dispatched on the class of the solver. The base class prints a
  message and returns \<open>None\<close>, which the caller cannot unpack into a pair: TypeError.
\<close>

fun Solver_advance ::
  "solver \<Rightarrow> (real \<Rightarrow> state \<Rightarrow> error + state) \<Rightarrow> real \<Rightarrow> state \<Rightarrow> real
     \<Rightarrow> error + real \<times> state" where
  "Solver_advance Solver physics x f dx = Inl TypeError"
| "Solver_advance Euler physics x f dx = Euler_advance physics x f dx"
| "Solver_advance RK2 physics x f dx = RK2_advance physics x f dx"
| "Solver_advance RK4 physics x f dx = RK4_advance physics x f dx"

section \<open>Physics.advance: the driver loop\<close>

text \<open>
  The loop of Physics.advance subtracts each step from the remaining duration, and whether it
  ends depends on how that subtraction rounds. So this one operation is the subtraction of
  double-precision floats: the exact difference, rounded to the nearest number with a
  significand of 53 bits, a tie going to the even significand. The range of the exponent is
  not modelled: the difference of two doubles of the same sign does not overflow, and it is
  exact where it would underflow. The time and the state, which the solver advances, are
  computed in exact arithmetic.
\<close>

definition round_half_even :: "real \<Rightarrow> int" where
  "round_half_even y =
     (let f = \<lfloor>y\<rfloor>; d = y - of_int f
      in if d < 1 / 2 then f else if d > 1 / 2 then f + 1 else if even f then f else f + 1)"

definition round_double :: "real \<Rightarrow> real" where
  "round_double x =
     (if x = 0 then 0
      else let ulp = 2 powr (of_int \<lfloor>log 2 \<bar>x\<bar>\<rfloor> - 52)
           in sgn x * ulp * of_int (round_half_even (\<bar>x\<bar> / ulp)))"

definition double_sub :: "real \<Rightarrow> real \<Rightarrow> real" where
  "double_sub a b = round_double (a - b)"

text \<open>
  \<open>Physics.advance(self, t, body, dt)\<close>. \<open>advance\<close> is the bound method
  \<open>self.solver.advance\<close>, \<open>get_state\<close> and \<open>set_state\<close> are the \<open>state\<close> property of the
  body, \<open>dt_max\<close> is \<open>self.dt_max\<close>. The loop need not end, so the result is an option:
  \<open>None\<close> is a run that never returns. An exception ends the loop; the state of the body at
  that moment is not part of the result.
\<close>

partial_function (option) Physics_advance ::
  "(real \<Rightarrow> 's \<Rightarrow> real \<Rightarrow> error + real \<times> 's) \<Rightarrow> ('b \<Rightarrow> 's) \<Rightarrow> ('b \<Rightarrow> 's \<Rightarrow> error + 'b) \<Rightarrow> real
     \<Rightarrow> real \<Rightarrow> 'b \<Rightarrow> real \<Rightarrow> (error + real \<times> 'b) option" where
  "Physics_advance advance get_state set_state dt_max t body dt =
     (if \<bar>dt\<bar> > 0 then
        (let step = (if \<bar>dt\<bar> > dt_max then dt_max * sgn dt else dt) in
         case advance t (get_state body) step of
           Inl e \<Rightarrow> Some (Inl e)
         | Inr (t', s') \<Rightarrow>
             (case set_state body s' of
                Inl e \<Rightarrow> Some (Inl e)
              | Inr body' \<Rightarrow>
                  Physics_advance advance get_state set_state dt_max t' body' (double_sub dt step)))
      else Some (Inr (t, body)))"



section \<open>Vector\<close>

text \<open>
  \<open>Vector\<close> of \<open>lib/Vector.py\<close>, with its properties \<open>r\<close> and \<open>theta\<close>. A setter returns the
  vector it leaves behind. A quotient with a zero denominator (\<open>y / x\<close> at \<open>x = 0\<close>, the
  ratio of \<open>v.r = 0\<close>), on which Python numbers raise ZeroDivisionError and numpy numbers
  give an infinity, is \<open>NaN\<close> here.
\<close>

record Vector =
  vec_x :: npfloat
  vec_y :: npfloat

definition Vector_r :: "Vector \<Rightarrow> npfloat" where
  "Vector_r self = np_sqrt (np_square (vec_x self) + np_square (vec_y self))"

definition Vector_set_r :: "Vector \<Rightarrow> npfloat \<Rightarrow> Vector" where
  "Vector_set_r self val =
     (let ratio = Vector_r self / val;
          self = self\<lparr>vec_x := vec_x self / ratio\<rparr>;
          self = self\<lparr>vec_y := vec_y self / ratio\<rparr>
      in self)"

definition Vector_theta :: "Vector \<Rightarrow> npfloat" where
  "Vector_theta self = np_rad2deg (np_apply arctan (vec_y self / vec_x self))"

definition Vector_set_theta :: "Vector \<Rightarrow> npfloat \<Rightarrow> Vector" where
  "Vector_set_theta self val =
     (let currentR = Vector_r self;
          self = self\<lparr>vec_x := currentR * np_apply cos (np_deg2rad val)\<rparr>;
          self = self\<lparr>vec_y := currentR * np_apply sin (np_deg2rad val)\<rparr>
      in self)"

section \<open>Bodies and the orbit model\<close>

text \<open>
  \<open>GravBody\<close> of \<open>lib/Body.py\<close>: the seven attributes of the state and the two magnitudes
  \<open>r\<close> and \<open>v\<close>, which the constructor and the setter of \<open>state\<close> compute.
\<close>

record GravBody =
  gb_x :: npfloat
  gb_y :: npfloat
  gb_z :: npfloat
  gb_vx :: npfloat
  gb_vy :: npfloat
  gb_vz :: npfloat
  gb_m :: npfloat
  gb_r :: npfloat
  gb_v :: npfloat

definition GravBody_init ::
  "npfloat \<Rightarrow> npfloat \<Rightarrow> npfloat \<Rightarrow> npfloat \<Rightarrow> npfloat \<Rightarrow> npfloat \<Rightarrow> npfloat \<Rightarrow> GravBody" where
  "GravBody_init x y z vx vy vz m =
     \<lparr>gb_x = x, gb_y = y, gb_z = z, gb_vx = vx, gb_vy = vy, gb_vz = vz, gb_m = m,
      gb_r = np_sqrt (np_square x + np_square y + np_square z),
      gb_v = np_sqrt (np_square vx + np_square vy + np_square vz)\<rparr>"

definition GravBody_pos :: "GravBody \<Rightarrow> npfloat" where
  "GravBody_pos self = gb_r self"

definition GravBody_vel :: "GravBody \<Rightarrow> npfloat" where
  "GravBody_vel self = gb_v self"

definition GravBody_state :: "GravBody \<Rightarrow> npfloat list" where
  "GravBody_state self =
     [gb_x self, gb_y self, gb_z self, gb_vx self, gb_vy self, gb_vz self, gb_m self]"

text \<open>
  The setter of \<open>state\<close>. It assigns the attributes one after the other, so a sequence that is
  too short raises IndexError; the attributes assigned before that are not part of the result.
\<close>

definition GravBody_set_state :: "GravBody \<Rightarrow> npfloat list \<Rightarrow> error + GravBody" where
  "GravBody_set_state self f =
     ebind (getitem f 0) (\<lambda>f0. ebind (getitem f 1) (\<lambda>f1. ebind (getitem f 2) (\<lambda>f2.
     ebind (getitem f 3) (\<lambda>f3. ebind (getitem f 4) (\<lambda>f4. ebind (getitem f 5) (\<lambda>f5.
     ebind (getitem f 6) (\<lambda>f6.
     Inr (self\<lparr>gb_x := f0, gb_y := f1, gb_z := f2, gb_vx := f3, gb_vy := f4, gb_vz := f5,
               gb_m := f6,
               gb_r := np_sqrt (np_square f0 + np_square f1 + np_square f2),
               gb_v := np_sqrt (np_square f3 + np_square f4 + np_square f5)\<rparr>))))))))"

text \<open>
  \<open>OrbitModel\<close> of \<open>lib/Model.py\<close>. The list \<open>bodies\<close> holds the body objects; the dictionary
  \<open>dic\<close> refers to the same objects, so a value of \<open>dic\<close> is the position of its object in
  \<open>bodies\<close>. The orbital elements are lists of Python floats: dividing by zero raises
  ZeroDivisionError.
\<close>

record OrbitModel =
  om_bodies :: "GravBody list"
  om_dic :: "string \<rightharpoonup> nat"
  om_physics :: CentralGravity
  om_time :: real

definition py_div :: "real \<Rightarrow> real \<Rightarrow> error + real" where
  "py_div a b = (if b = 0 then Inl ZeroDivisionError else Inr (a / b))"

fun OrbitModel_init_loop ::
  "real list \<Rightarrow> real list \<Rightarrow> real list \<Rightarrow> string list \<Rightarrow> nat list \<Rightarrow> GravBody list
     \<Rightarrow> (string \<rightharpoonup> nat) \<Rightarrow> error + GravBody list \<times> (string \<rightharpoonup> nat)" where
  "OrbitModel_init_loop aList eList masses names [] bodies dic = Inr (bodies, dic)"
| "OrbitModel_init_loop aList eList masses names (i # rest) bodies dic =
     (let G = 4 * pi\<^sup>2;
          gravParam = G * 1 in
      ebind (getitem aList i) (\<lambda>a. ebind (getitem eList i) (\<lambda>e.
      let parahelionDist = a * (1 - e) in
      ebind (py_div (1 + e) (1 - e)) (\<lambda>weirdTerm.
      ebind (py_div (gravParam * 1 * weirdTerm) a) (\<lambda>q.
      let yVel = np_sqrt (Fin q) in
      ebind (getitem masses i) (\<lambda>m.
      let newBody = GravBody_init (Fin parahelionDist) (Fin 0) (Fin 0) (Fin 0) yVel (Fin 0) (Fin m) in
      ebind (getitem names i) (\<lambda>name.
      OrbitModel_init_loop aList eList masses names rest
        (bodies @ [newBody]) (dic(name \<mapsto> length bodies)))))))))"

definition OrbitModel_init ::
  "real list \<Rightarrow> real list \<Rightarrow> real list \<Rightarrow> string list \<Rightarrow> error + OrbitModel" where
  "OrbitModel_init aList eList masses names =
     ebind (OrbitModel_init_loop aList eList masses names [0..<length aList] [] Map.empty)
       (\<lambda>(bodies, dic).
          let grav = CentralGravity_init RK4
          in Inr \<lparr>om_bodies = bodies, om_dic = dic, om_physics = grav, om_time = 0\<rparr>)"

text \<open>
  \<open>get_body\<close> and \<open>total_energy\<close>. Each returns its result, a reference to a body or a number,
  together with the model it leaves behind.
\<close>

definition get_body :: "OrbitModel \<Rightarrow> string \<Rightarrow> (error + nat) \<times> OrbitModel" where
  "get_body self name =
     (case om_dic self name of None \<Rightarrow> (Inl KeyError, self) | Some p \<Rightarrow> (Inr p, self))"

definition total_energy :: "OrbitModel \<Rightarrow> string \<Rightarrow> (error + npfloat) \<times> OrbitModel" where
  "total_energy self name =
     (case get_body self name of
        (Inl e, self) \<Rightarrow> (Inl e, self)
      | (Inr p, self) \<Rightarrow>
          (case getitem (GravBody_state (om_bodies self ! p)) 6 of
             Inl e \<Rightarrow> (Inl e, self)
           | Inr pMass \<Rightarrow>
               (let rad = GravBody_pos (om_bodies self ! p);
                    v = GravBody_vel (om_bodies self ! p);
                    GM = Fin (4 * pi\<^sup>2);
                    pot = GM * pMass / rad;
                    ke = Fin (1 / 2) * pMass * np_pow_int v 2
                in (Inr (pot + ke), self))))"

text \<open>
  What the constructor and the setter of \<open>state\<close> establish for a body, and what holds of a
  model whose dictionary refers to bodies of the model.
\<close>

definition GravBody_consistent :: "GravBody \<Rightarrow> bool" where
  "GravBody_consistent b \<longleftrightarrow>
     gb_r b = np_sqrt (np_square (gb_x b) + np_square (gb_y b) + np_square (gb_z b)) \<and>
     gb_v b = np_sqrt (np_square (gb_vx b) + np_square (gb_vy b) + np_square (gb_vz b))"

definition OrbitModel_inv :: "OrbitModel \<Rightarrow> bool" where
  "OrbitModel_inv M \<longleftrightarrow>
     (\<forall>name p. om_dic M name = Some p \<longrightarrow> p < length (om_bodies M)) \<and>
     (\<forall>b \<in> set (om_bodies M). GravBody_consistent b)"

text \<open>
  \<open>Model.advance(self, t)\<close> for an orbit model: \<open>self.physics.advance\<close> is Physics.advance
  with the solver, the constants and \<open>dt_max\<close> of the central gravity instance, and the bodies
  are read and written through their \<open>state\<close> property. \<open>tn\<close> is unbound until a body has
  been advanced. The result is \<open>None\<close> when a body's loop never returns.
\<close>

definition CentralGravity_advance ::
  "CentralGravity \<Rightarrow> real \<Rightarrow> GravBody \<Rightarrow> real \<Rightarrow> (error + real \<times> GravBody) option" where
  "CentralGravity_advance self t body dt =
     Physics_advance
       (Solver_advance (cg_solver self) (on_array (CentralGravity_diff_eq (cg_G self) (cg_M self))))
       (\<lambda>body. Array (GravBody_state body))
       (\<lambda>body f. case f of Scalar u \<Rightarrow> Inl TypeError | Array f \<Rightarrow> GravBody_set_state body f)
       (cg_dt_max self) t body dt"

fun Model_advance_loop ::
  "CentralGravity \<Rightarrow> real \<Rightarrow> real \<Rightarrow> nat list \<Rightarrow> GravBody list \<Rightarrow> real option
     \<Rightarrow> (error + GravBody list \<times> real option) option" where
  "Model_advance_loop physics time t [] bodies tn = Some (Inr (bodies, tn))"
| "Model_advance_loop physics time t (i # rest) bodies tn =
     (case getitem bodies i of
        Inl e \<Rightarrow> Some (Inl e)
      | Inr currentBody \<Rightarrow>
          (case CentralGravity_advance physics time currentBody t of
             None \<Rightarrow> None
           | Some (Inl e) \<Rightarrow> Some (Inl e)
           | Some (Inr (tn', body)) \<Rightarrow>
               Model_advance_loop physics time t rest (bodies[i := body]) (Some tn')))"

definition Model_advance ::
  "OrbitModel \<Rightarrow> real \<Rightarrow> (error + (real \<times> GravBody list) \<times> OrbitModel) option" where
  "Model_advance self t =
     (case Model_advance_loop (om_physics self) (om_time self) t
             [0..<length (om_bodies self)] (om_bodies self) None of
        None \<Rightarrow> None
      | Some (Inl e) \<Rightarrow> Some (Inl e)
      | Some (Inr (bodies, None)) \<Rightarrow> Some (Inl UnboundLocalError)
      | Some (Inr (bodies, Some tn)) \<Rightarrow>
          Some (Inr ((tn, bodies), self\<lparr>om_bodies := bodies, om_time := tn\<rparr>)))"

text \<open>
  The body at perihelion for the semi-major axis \<open>a\<close>, the eccentricity \<open>e\<close> and the mass \<open>m\<close>:
  on the x axis at the distance \<open>a (1 - e)\<close>, moving along the y axis.
\<close>

definition perihelion_body :: "real \<Rightarrow> real \<Rightarrow> real \<Rightarrow> GravBody" where
  "perihelion_body a e m =
     GravBody_init (Fin (a * (1 - e))) (Fin 0) (Fin 0) (Fin 0)
       (np_sqrt (Fin (4 * pi\<^sup>2 * (1 + e) / ((1 - e) * a)))) (Fin 0) (Fin m)"

section \<open>The collection of bodies\<close>

text \<open>
  \<open>GravBody\<close> and \<open>GravBodies\<close> of \<open>library/Body.py\<close>. The collection holds the body objects,
  the matrix of their states (a list of rows), the array of their masses and the dictionary
  from names to row indices, an association list in the order of insertion whose keys are
  distinct.
\<close>

record library_GravBody =
  lgb_state :: "npfloat list"
  lgb_mass :: npfloat

record GravBodies =
  gbs_bodies :: "library_GravBody list"
  gbs_state :: "npfloat list list"
  gbs_mass :: "npfloat list"
  gbs_dict :: "(string \<times> int) list"

datatype index = IntIdx int | StrIdx string

text \<open>
  An index into a sequence of \<open>n\<close> elements, as Python and numpy read it: a negative index
  counts from the end, an index outside \<open>[-n, n)\<close> raises IndexError.
\<close>

definition norm_index :: "nat \<Rightarrow> int \<Rightarrow> error + nat" where
  "norm_index n i =
     (let j = (if i < 0 then int n + i else i)
      in if 0 \<le> j \<and> j < int n then Inr (nat j) else Inl IndexError)"

text \<open>\<open>numpy.delete(a, index, axis=0)\<close> and \<open>list.pop(index)\<close>: the sequence without that element.\<close>

definition delete_at :: "'a list \<Rightarrow> int \<Rightarrow> error + 'a list" where
  "delete_at xs i = ebind (norm_index (length xs) i) (\<lambda>k. Inr (take k xs @ drop (Suc k) xs))"

definition dict_getitem :: "(string \<times> int) list \<Rightarrow> string \<Rightarrow> error + int" where
  "dict_getitem d name = (case map_of d name of None \<Rightarrow> Inl KeyError | Some v \<Rightarrow> Inr v)"

text \<open>\<open>GravBodies.__getitem__\<close> for an index that is no slice.\<close>

definition GravBodies_getitem :: "GravBodies \<Rightarrow> index \<Rightarrow> error + library_GravBody \<times> GravBodies" where
  "GravBodies_getitem self index =
     ebind (case index of StrIdx name \<Rightarrow> dict_getitem (gbs_dict self) name | IntIdx i \<Rightarrow> Inr i) (\<lambda>index.
     ebind (norm_index (length (gbs_state self)) index) (\<lambda>row.
     ebind (norm_index (length (gbs_bodies self)) index) (\<lambda>k.
     let body = (gbs_bodies self ! k)\<lparr>lgb_state := gbs_state self ! row\<rparr>
     in Inr (body, self\<lparr>gbs_bodies := (gbs_bodies self)[k := body]\<rparr>))))"

text \<open>
  The scan of the dictionary in \<open>GravBodies.pop\<close>, over the list of the keys taken before the
  scan starts.
\<close>

fun pop_scan :: "string list \<Rightarrow> int \<Rightarrow> (string \<times> int) list \<Rightarrow> error + (string \<times> int) list" where
  "pop_scan [] index d = Inr d"
| "pop_scan (name # names) index d =
     ebind (dict_getitem d name) (\<lambda>v.
       if v = index then pop_scan names index (AList.delete name d)
       else if v > index then pop_scan names index (AList.update name (v - 1) d)
       else pop_scan names index d)"

definition GravBodies_pop :: "GravBodies \<Rightarrow> index \<Rightarrow> error + library_GravBody \<times> GravBodies" where
  "GravBodies_pop self index =
     ebind (case index of StrIdx name \<Rightarrow> dict_getitem (gbs_dict self) name | IntIdx i \<Rightarrow> Inr i) (\<lambda>index.
     ebind (GravBodies_getitem self (IntIdx index)) (\<lambda>(ret, self).
     ebind (delete_at (gbs_state self) index) (\<lambda>state.
     ebind (delete_at (gbs_mass self) index) (\<lambda>mass.
     ebind (pop_scan (map fst (gbs_dict self)) index (gbs_dict self)) (\<lambda>dict.
     ebind (delete_at (gbs_bodies self) index) (\<lambda>bodies.
     Inr (ret, \<lparr>gbs_bodies = bodies, gbs_state = state, gbs_mass = mass, gbs_dict = dict\<rparr>)))))))"

text \<open>
  A collection is consistent when it has one body, one row and one mass for each of its
  \<open>n\<close> bodies, the keys of its dictionary are distinct and every value of the dictionary is a
  row index in \<open>[0, n)\<close>.
\<close>

definition GravBodies_consistent :: "GravBodies \<Rightarrow> bool" where
  "GravBodies_consistent g \<longleftrightarrow>
     length (gbs_bodies g) = length (gbs_state g) \<and>
     length (gbs_mass g) = length (gbs_state g) \<and>
     distinct (map fst (gbs_dict g)) \<and>
     list_all (\<lambda>(name, v). 0 \<le> v \<and> v < int (length (gbs_state g))) (gbs_dict g)"

text \<open>
  What removing row \<open>k\<close> does to a value of the dictionary: the value \<open>k\<close> goes, a value above
  \<open>k\<close> is decreased by one, a value below \<open>k\<close> stays.
\<close>

definition shift_index :: "int \<Rightarrow> int option \<Rightarrow> int option" where
  "shift_index k w = (case w of None \<Rightarrow> None
     | Some v \<Rightarrow> if v = k then None else if v > k then Some (v - 1) else Some v)"

section \<open>Central gravity\<close>

lemma powr_three_halves: "0 \<le> s \<Longrightarrow> s powr (3 / 2) = sqrt s ^ 3" for s :: real
proof -
  assume s: "0 \<le> s"
  show ?thesis
  proof (cases "s = 0")
    case True
    then show ?thesis by simp
  next
    case False
    with s have pos: "0 < s" by simp
    have "s powr (3 / 2) = (s powr (1 / 2)) powr 3"
      by (simp add: powr_powr)
    also have "\<dots> = sqrt s powr 3"
      using pos by (simp add: powr_half_sqrt)
    also have "\<dots> = sqrt s ^ 3"
      using pos by (simp add: powr_numeral)
    finally show ?thesis .
  qed
qed

lemma sum_squares3_pos:
  fixes x y z :: real
  assumes "x \<noteq> 0 \<or> y \<noteq> 0 \<or> z \<noteq> 0"
  shows "0 < x * x + y * y + z * z"
proof -
  have "0 \<le> x * x" "0 \<le> y * y" "0 \<le> z * z" by simp_all
  moreover from assms have "0 < x * x \<or> 0 < y * y \<or> 0 < z * z"
    by (auto simp: zero_less_mult_iff neq_iff)
  ultimately show ?thesis by linarith
qed

text \<open>
  C1. For a state \<open>[x, y, z, vx, vy, vz]\<close> whose position is not the origin, at any time \<open>t\<close>,
  the derivative of central gravity is \<open>[vx, vy, vz, -GMx/r\<^sup>3, -GMy/r\<^sup>3, -GMz/r\<^sup>3]\<close> with
  \<open>r = sqrt (x\<^sup>2 + y\<^sup>2 + z\<^sup>2)\<close>.
\<close>

theorem CentralGravity_diff_eq_formula:
  fixes x y z vx vy vz G M t :: real
  assumes "x \<noteq> 0 \<or> y \<noteq> 0 \<or> z \<noteq> 0"
  shows "CentralGravity_diff_eq G M t [Fin x, Fin y, Fin z, Fin vx, Fin vy, Fin vz] =
           Inr [Fin vx, Fin vy, Fin vz,
                Fin (- (G * M * x) / sqrt (x\<^sup>2 + y\<^sup>2 + z\<^sup>2) ^ 3),
                Fin (- (G * M * y) / sqrt (x\<^sup>2 + y\<^sup>2 + z\<^sup>2) ^ 3),
                Fin (- (G * M * z) / sqrt (x\<^sup>2 + y\<^sup>2 + z\<^sup>2) ^ 3)]"
proof -
  let ?s = "x\<^sup>2 + y\<^sup>2 + z\<^sup>2"
  have "0 < x * x + y * y + z * z" using assms by (rule sum_squares3_pos)
  then have pos: "0 < ?s" by (simp add: power2_eq_square)
  have rad: "?s powr (3 / 2) = sqrt ?s ^ 3"
    using pos by (intro powr_three_halves) simp
  have nz: "sqrt ?s ^ 3 \<noteq> 0" "\<not> ?s < 0" using pos by simp_all
  show ?thesis
    using nz
    by (simp add: CentralGravity_diff_eq_def ebind_def getitem_def Let_def rad
        del: real_sqrt_gt_0_iff)
qed

theorem CentralGravity_diff_eq_formula_witness:
  "CentralGravity_diff_eq 2 3 0 [Fin 1, Fin 0, Fin 0, Fin 0, Fin 5, Fin 0] =
     Inr [Fin 0, Fin 5, Fin 0, Fin (- 6), Fin 0, Fin 0]"
  using CentralGravity_diff_eq_formula [of 1 0 0 2 3 0 0 5 0] by simp

section \<open>The solvers\<close>

lemma np_scale_length [simp]: "length (np_scale c a) = length a"
  by (simp add: np_scale_def)

lemma np_add_length_left:
  "np_add a b = Inr c \<Longrightarrow> length a \<noteq> 1 \<Longrightarrow> length c = length a"
  by (auto simp: np_add_def split: if_splits)

lemma np_add_same_length:
  "length a = length b \<Longrightarrow> \<exists>c. np_add a b = Inr c \<and> length c = length a"
  by (simp add: np_add_def)

lemma CentralGravity_diff_eq_total:
  "length f = 6 \<Longrightarrow> \<exists>k. CentralGravity_diff_eq G M t f = Inr k \<and> length k = 6"
  by (simp add: CentralGravity_diff_eq_def ebind_def getitem_def Let_def)

lemma ebind_Inr_iff: "ebind m g = Inr r \<longleftrightarrow> (\<exists>a. m = Inr a \<and> g a = Inr r)"
  by (cases m) (simp_all add: ebind_def)

lemma ebind_Inr [simp]: "ebind (Inr a) g = g a"
  by (simp add: ebind_def)

lemma ebind_Inl [simp]: "ebind (Inl e) g = Inl e"
  by (simp add: ebind_def)

lemma ebind_cong_Inr:
  "m = m' \<Longrightarrow> (\<And>a. m' = Inr a \<Longrightarrow> g a = h a) \<Longrightarrow> ebind m g = ebind m' h"
  by (cases m') simp_all

lemma ebind_assoc: "ebind (ebind m g) h = ebind m (\<lambda>a. ebind (g a) h)"
  by (cases m) simp_all

text \<open>
  The sum of an array and a state is an array of the same length, unless the array has one
  element.
\<close>

lemma state_add_Array_left:
  assumes "state_add (Array a) b = Inr c" and "length a \<noteq> 1"
  shows "\<exists>c'. c = Array c' \<and> length c' = length a"
proof (cases b)
  case (Scalar w)
  with assms show ?thesis by auto
next
  case (Array b')
  with assms obtain c' where "np_add a b' = Inr c'" "c = Array c'"
    by (auto split: sum.splits)
  with assms(2) show ?thesis by (auto dest: np_add_length_left)
qed

lemma state_add_same_length:
  "length a = length b \<Longrightarrow>
   \<exists>c. state_add (Array a) (Array b) = Inr (Array c) \<and> length c = length a"
  by (simp add: np_add_def)

lemma state_scale_Array_length:
  "\<exists>b. state_scale c (Array a) = Array b \<and> length b = length a"
  by simp

lemma RK4_advance_result:
  assumes "RK4_advance physics x (Array f) dx = Inr (x', s')"
  shows "x' = x + dx \<and> (\<exists>f'. s' = Array f' \<and> length f' = 7 \<and> f' ! 6 = f ! 6) \<and> 7 \<le> length f"
proof -
  from assms obtain fnext s where
    len: "6 < length f" and
    add: "state_add (Array (take 6 f)) s = Inr fnext" and
    res: "x' = x + dx" "s' = np_append fnext (f ! 6)"
    by (auto simp: RK4_advance_def ebind_Inr_iff getitem_def Let_def split: if_splits)
  from len have "length (take 6 f) \<noteq> 1" "length (take 6 f) = 6" by simp_all
  with state_add_Array_left [OF add] obtain c where "fnext = Array c" "length c = 6"
    by auto
  with res len show ?thesis by (simp add: nth_append)
qed

lemma RK4_advance_on6:
  fixes physics :: "real \<Rightarrow> state \<Rightarrow> error + state"
  defines "on6 \<equiv> \<lambda>t s. case s of Scalar u \<Rightarrow> Inl ValueError
                              | Array g \<Rightarrow> if length g = 6 then physics t s else Inl ValueError"
  shows "RK4_advance physics x (Array f) dx = RK4_advance on6 x (Array f) dx"
proof (cases "6 < length f")
  case False
  then show ?thesis by (simp add: RK4_advance_def getitem_def)
next
  case True
  then have six: "length (take 6 f) = 6" "length (take 6 f) \<noteq> 1" by simp_all
  have p: "on6 t (Array (take 6 f)) = physics t (Array (take 6 f))" for t
    using six by (simp add: on6_def)
  have q: "state_add (Array (take 6 f)) s = Inr c \<Longrightarrow> on6 t c = physics t c" for s c t
    using state_add_Array_left [of "take 6 f" s c] six by (auto simp: on6_def)
  show ?thesis
    unfolding RK4_advance_def Let_def
    using True
    by (simp add: getitem_def p)
      ((rule ebind_cong_Inr, (simp add: q; fail))+, rule refl)
qed

lemma RK4_advance_returns:
  assumes "length f = 7"
    and "\<And>t g. length g = 6 \<Longrightarrow> \<exists>k. physics t (Array g) = Inr (Array k) \<and> length k = 6"
  shows "\<exists>s'. RK4_advance physics x (Array f) dx = Inr (x + dx, s')"
proof -
  let ?f = "take 6 f"
  have l6: "length ?f = 6" using assms(1) by simp
  obtain k1 where k1: "physics x (Array ?f) = Inr (Array k1)" "length k1 = 6"
    using assms(2) [OF l6] by blast
  obtain f2 where f2:
    "state_add (Array ?f) (state_scale dx (state_scale (1 / 2) (Array k1))) = Inr (Array f2)"
    "length f2 = 6"
    using state_add_same_length [of ?f "np_scale dx (np_scale (1 / 2) k1)"] l6 k1 by auto
  obtain k2 where k2: "physics (x + 1 / 2 * dx) (Array f2) = Inr (Array k2)" "length k2 = 6"
    using assms(2) [OF f2(2)] by blast
  obtain f3 where f3:
    "state_add (Array ?f) (state_scale dx (state_scale (1 / 2) (Array k2))) = Inr (Array f3)"
    "length f3 = 6"
    using state_add_same_length [of ?f "np_scale dx (np_scale (1 / 2) k2)"] l6 k2 by auto
  obtain k3 where k3: "physics (x + 1 / 2 * dx) (Array f3) = Inr (Array k3)" "length k3 = 6"
    using assms(2) [OF f3(2)] by blast
  obtain f4 where f4:
    "state_add (Array ?f) (state_scale dx (Array k3)) = Inr (Array f4)" "length f4 = 6"
    using state_add_same_length [of ?f "np_scale dx k3"] l6 k3 by auto
  obtain k4 where k4: "physics (x + dx) (Array f4) = Inr (Array k4)" "length k4 = 6"
    using assms(2) [OF f4(2)] by blast
  obtain s2 where s2:
    "state_add (Array k1) (state_scale 2 (Array k2)) = Inr (Array s2)" "length s2 = 6"
    using state_add_same_length [of k1 "np_scale 2 k2"] k1 k2 by auto
  obtain s3 where s3:
    "state_add (Array s2) (state_scale 2 (Array k3)) = Inr (Array s3)" "length s3 = 6"
    using state_add_same_length [of s2 "np_scale 2 k3"] s2 k3 by auto
  obtain s4 where s4: "state_add (Array s3) (Array k4) = Inr (Array s4)" "length s4 = 6"
    using state_add_same_length [of s3 k4] s3 k4 by auto
  obtain fnext where fnext:
    "state_add (Array ?f) (state_scale dx (state_scale (1 / 6) (Array s4))) = Inr (Array fnext)"
    using state_add_same_length [of ?f "np_scale dx (np_scale (1 / 6) s4)"] l6 s4 by auto
  have "getitem f 6 = Inr (f ! 6)" using assms(1) by (simp add: getitem_def)
  then have "RK4_advance physics x (Array f) dx = Inr (x + dx, np_append (Array fnext) (f ! 6))"
    using k1(1) f2(1) k2(1) f3(1) k3(1) f4(1) k4(1) s2(1) s3(1) s4(1) fnext
    by (simp add: RK4_advance_def Let_def)
  then show ?thesis by blast
qed

lemma RK4_advance_mass_tag:
  assumes "length f = 7"
  shows "RK4_advance physics x (Array (f[6 := m'])) dx =
           (case RK4_advance physics x (Array f) dx of
              Inl e \<Rightarrow> Inl e
            | Inr (x', s') \<Rightarrow> Inr (x', case s' of Scalar w \<Rightarrow> Scalar w
                                                 | Array f' \<Rightarrow> Array (f'[6 := m'])))"
proof -
  define core where "core g =
     ebind (physics x g) (\<lambda>k1.
     ebind (state_add g (state_scale dx (state_scale (1 / 2) k1))) (\<lambda>f2.
     ebind (physics (x + 1 / 2 * dx) f2) (\<lambda>k2.
     ebind (state_add g (state_scale dx (state_scale (1 / 2) k2))) (\<lambda>f3.
     ebind (physics (x + 1 / 2 * dx) f3) (\<lambda>k3.
     ebind (state_add g (state_scale dx k3)) (\<lambda>f4.
     ebind (physics (x + dx) f4) (\<lambda>k4.
     ebind (state_add k1 (state_scale 2 k2)) (\<lambda>s2.
     ebind (state_add s2 (state_scale 2 k3)) (\<lambda>s3.
     ebind (state_add s3 k4) (\<lambda>s4.
     state_add g (state_scale dx (state_scale (1 / 6) s4))))))))))))" for g
  have eq: "RK4_advance physics x (Array h) dx =
      ebind (getitem h 6) (\<lambda>mass. ebind (core (Array (take 6 h)))
        (\<lambda>fnext. Inr (x + dx, np_append fnext mass)))" for h
    unfolding RK4_advance_def core_def Let_def ebind_assoc by simp
  have len: "core (Array (take 6 f)) = Inr c \<Longrightarrow> \<exists>c'. c = Array c' \<and> length c' = 6" for c
    using assms state_add_Array_left [of "take 6 f" _ c]
    by (auto simp: core_def ebind_Inr_iff)
  show ?thesis
  proof (cases "core (Array (take 6 f))")
    case (Inl e)
    then show ?thesis using assms by (simp add: eq getitem_def)
  next
    case (Inr c)
    with len obtain c' where "c = Array c'" "length c' = 6" by blast
    with Inr show ?thesis using assms by (simp add: eq getitem_def list_update_append)
  qed
qed







text \<open>
  C3. For a state of seven components, whatever the derivative function, time and step: when
  RK4.advance returns, the state it returns has seven components and its component 6 is that
  of the input; it does return when the derivative function returns six derivatives for six
  components. The derivative function is only ever applied to arrays of six components, and
  the mass has no influence on the result beyond being attached to it: the same call with
  another mass gives the same result with that mass.
\<close>

theorem RK4_advance_mass_passthrough:
  assumes "length f = 7"
  shows "(case RK4_advance physics x (Array f) dx of
            Inl e \<Rightarrow> True
          | Inr (x', s') \<Rightarrow> \<exists>f'. s' = Array f' \<and> length f' = 7 \<and> f' ! 6 = f ! 6) \<and>
         ((\<forall>t g. length g = 6 \<longrightarrow> (\<exists>k. physics t (Array g) = Inr (Array k) \<and> length k = 6)) \<longrightarrow>
          (\<exists>f'. RK4_advance physics x (Array f) dx = Inr (x + dx, Array f') \<and>
                 length f' = 7 \<and> f' ! 6 = f ! 6)) \<and>
         RK4_advance physics x (Array f) dx =
           RK4_advance
             (\<lambda>t s. case s of Scalar u \<Rightarrow> Inl ValueError
                     | Array g \<Rightarrow> if length g = 6 then physics t s else Inl ValueError)
             x (Array f) dx \<and>
         RK4_advance physics x (Array (f[6 := m'])) dx =
           (case RK4_advance physics x (Array f) dx of
              Inl e \<Rightarrow> Inl e
            | Inr (x', s') \<Rightarrow> Inr (x', case s' of Scalar w \<Rightarrow> Scalar w
                                                 | Array f' \<Rightarrow> Array (f'[6 := m'])))"
proof (intro conjI impI)
  show "case RK4_advance physics x (Array f) dx of
            Inl e \<Rightarrow> True
          | Inr (x', s') \<Rightarrow> \<exists>f'. s' = Array f' \<and> length f' = 7 \<and> f' ! 6 = f ! 6"
    using RK4_advance_result [of physics x f dx]
    by (auto split: sum.splits)
  show "\<exists>f'. RK4_advance physics x (Array f) dx = Inr (x + dx, Array f') \<and>
                 length f' = 7 \<and> f' ! 6 = f ! 6"
    if "\<forall>t g. length g = 6 \<longrightarrow> (\<exists>k. physics t (Array g) = Inr (Array k) \<and> length k = 6)"
    using RK4_advance_returns [OF assms, of physics x dx] that RK4_advance_result by blast
  show "RK4_advance physics x (Array f) dx =
           RK4_advance
             (\<lambda>t s. case s of Scalar u \<Rightarrow> Inl ValueError
                     | Array g \<Rightarrow> if length g = 6 then physics t s else Inl ValueError)
             x (Array f) dx"
    by (rule RK4_advance_on6)
  show "RK4_advance physics x (Array (f[6 := m'])) dx =
           (case RK4_advance physics x (Array f) dx of
              Inl e \<Rightarrow> Inl e
            | Inr (x', s') \<Rightarrow> Inr (x', case s' of Scalar w \<Rightarrow> Scalar w
                                                 | Array f' \<Rightarrow> Array (f'[6 := m'])))"
    using assms by (rule RK4_advance_mass_tag)
qed


theorem RK4_advance_mass_passthrough_witness:
  "length [Fin 1, Fin 0, Fin 0, Fin 0, Fin 6, Fin 0, Fin 5] = 7 \<and>
   (\<exists>f'. RK4_advance (on_array (CentralGravity_diff_eq 1 1)) 0
            (Array [Fin 1, Fin 0, Fin 0, Fin 0, Fin 6, Fin 0, Fin 5]) (1 / 10) =
              Inr (0 + 1 / 10, Array f') \<and>
          length f' = 7 \<and> f' ! 6 = Fin 5)"
proof -
  have len: "length [Fin 1, Fin 0, Fin 0, Fin 0, Fin 6, Fin 0, Fin 5] = 7" by simp
  have total: "\<forall>t g. length g = 6 \<longrightarrow>
      (\<exists>k. on_array (CentralGravity_diff_eq 1 1) t (Array g) = Inr (Array k) \<and> length k = 6)"
  proof (intro allI impI)
    fix t :: real and g :: "npfloat list"
    assume "length g = 6"
    then obtain k where "CentralGravity_diff_eq 1 1 t g = Inr k" "length k = 6"
      using CentralGravity_diff_eq_total [of g 1 1 t] by blast
    then show "\<exists>k. on_array (CentralGravity_diff_eq 1 1) t (Array g) = Inr (Array k) \<and>
                 length k = 6"
      by simp
  qed
  have "\<exists>f'. RK4_advance (on_array (CentralGravity_diff_eq 1 1)) 0
            (Array [Fin 1, Fin 0, Fin 0, Fin 0, Fin 6, Fin 0, Fin 5]) (1 / 10) =
              Inr (0 + 1 / 10, Array f') \<and>
          length f' = 7 \<and> f' ! 6 = [Fin 1, Fin 0, Fin 0, Fin 0, Fin 6, Fin 0, Fin 5] ! 6"
    by (rule RK4_advance_mass_passthrough
        [OF len, where x = 0 and dx = "1 / 10"
           and physics = "on_array (CentralGravity_diff_eq 1 1)" and m' = NaN,
         THEN conjunct2, THEN conjunct1, THEN mp, OF total])
  then show ?thesis using len by simp
qed




section \<open>The driver loop\<close>

subsection \<open>Rounding to a double\<close>



lemma round_double_zero [simp]: "round_double 0 = 0"
  by (simp add: round_double_def)

lemma double_sub_self [simp]: "double_sub a a = 0"
  by (simp add: double_sub_def)





subsection \<open>The loop\<close>











section \<open>Cooling\<close>

lemma Cooling_init_AttributeError: "Cooling_init solver Ta k = Inl AttributeError"
  by (simp add: Cooling_init_def super_dt_max_def)

text \<open>
  C6. The claim: constructing Cooling succeeds for every solver, ambient temperature and
  coefficient, and the derivative at temperature \<open>T\<close> is \<open>k (Ta - T)\<close>. The code: the
  constructor raises AttributeError for every argument, for instance for
  \<open>Cooling(Euler(), 20.0, 0.1)\<close>, so no instance exists; the derivative function itself
  computes \<open>k (Ta - T)\<close> from the attributes.
\<close>

theorem Cooling_init_raises:
  "Cooling_init Euler 20 (1 / 10) = Inl AttributeError \<and>
   (\<forall>solver Ta k. Cooling_init solver Ta k = Inl AttributeError) \<and>
   Cooling_diff_eq \<lparr>c_solver = s, c_Ta = Ta, c_k = k, c_dt_max = d\<rparr> t (Fin T) = Fin (k * (Ta - T))"
  by (simp add: Cooling_init_AttributeError Cooling_diff_eq_def)

section \<open>Vector round trips\<close>

lemma Vector_r_Fin:
  "Vector_r \<lparr>vec_x = Fin x, vec_y = Fin y\<rparr> = Fin (sqrt (x * x + y * y))"
proof -
  have "\<not> x * x + y * y < 0" by (simp add: not_less)
  then show ?thesis by (simp add: Vector_r_def np_square_def)
qed

lemma Vector_set_r_roundtrip:
  assumes "x \<noteq> 0 \<or> y \<noteq> 0"
  shows "Vector_set_r \<lparr>vec_x = Fin x, vec_y = Fin y\<rparr> (Vector_r \<lparr>vec_x = Fin x, vec_y = Fin y\<rparr>) =
           \<lparr>vec_x = Fin x, vec_y = Fin y\<rparr>"
proof -
  have "0 < x * x + y * y"
    using assms sum_squares3_pos [of x y 0] by simp
  then have "0 < sqrt (x * x + y * y)" by (rule real_sqrt_gt_zero)
  then have "sqrt (x * x + y * y) \<noteq> 0" by linarith
  then show ?thesis
    by (simp add: Vector_set_r_def Vector_r_Fin Let_def)
qed

lemma Vector_set_theta_roundtrip:
  assumes "x \<noteq> 0"
  shows "Vector_set_theta \<lparr>vec_x = Fin x, vec_y = Fin y\<rparr> (Vector_theta \<lparr>vec_x = Fin x, vec_y = Fin y\<rparr>) =
           \<lparr>vec_x = Fin \<bar>x\<bar>, vec_y = Fin (sgn x * y)\<rparr>"
proof -
  let ?t = "y / x"
  have root: "sqrt (x * x + y * y) = \<bar>x\<bar> * sqrt (1 + ?t\<^sup>2)"
  proof -
    have "x * x + y * y = x\<^sup>2 * (1 + ?t\<^sup>2)"
      using assms by (simp add: power2_eq_square field_simps)
    then show ?thesis by (simp add: real_sqrt_mult)
  qed
  have pos: "0 < sqrt (1 + ?t\<^sup>2)"
    by (simp add: add_pos_nonneg)
  have cx: "sqrt (x * x + y * y) * cos (arctan ?t) = \<bar>x\<bar>"
    using pos by (simp add: root cos_arctan)
  have "sqrt (x * x + y * y) * sin (arctan ?t) = \<bar>x\<bar> * ?t"
    using pos by (simp add: root sin_arctan)
  also have "\<dots> = sgn x * y"
    using assms by (simp add: sgn_if abs_if)
  finally have sy: "sqrt (x * x + y * y) * sin (arctan ?t) = sgn x * y" .
  have angle: "arctan ?t * 180 / pi * pi / 180 = arctan ?t" by simp
  show ?thesis
    using assms
    by (simp add: Vector_set_theta_def Vector_theta_def Vector_r_Fin Let_def
        np_rad2deg_def np_deg2rad_def angle cx sy)
qed

lemma cos_135: "cos (3 * pi / 4) = - (sqrt 2 / 2)"
proof -
  have "(3 * pi / 4 :: real) = pi - pi / 4" by simp
  then have "cos (3 * pi / 4) = cos (pi - pi / 4)" by simp
  also have "\<dots> = - cos (pi / 4)" by (rule cos_pi_minus)
  finally show ?thesis by (simp add: cos_45)
qed

lemma sin_135: "sin (3 * pi / 4) = sqrt 2 / 2"
proof -
  have "(3 * pi / 4 :: real) = pi - pi / 4" by simp
  then have "sin (3 * pi / 4) = sin (pi - pi / 4)" by simp
  also have "\<dots> = sin (pi / 4)" by (rule sin_pi_minus)
  finally show ?thesis by (simp add: sin_45)
qed

lemma Vector_theta_second_quadrant:
  "Vector_theta \<lparr>vec_x = Fin (- 1), vec_y = Fin 1\<rparr> = Fin (- 45)"
  by (simp add: Vector_theta_def np_rad2deg_def arctan_minus arctan_one)

lemma Vector_set_theta_135:
  "Vector_set_theta \<lparr>vec_x = Fin 1, vec_y = Fin 0\<rparr> (Fin 135) =
     \<lparr>vec_x = Fin (- (sqrt 2 / 2)), vec_y = Fin (sqrt 2 / 2)\<rparr>"
  by (simp add: Vector_set_theta_def Vector_r_Fin Let_def np_deg2rad_def cos_135 sin_135)

lemma Vector_theta_135:
  "Vector_theta (Vector_set_theta \<lparr>vec_x = Fin 1, vec_y = Fin 0\<rparr> (Fin 135)) = Fin (- 45)"
  by (simp add: Vector_set_theta_135 Vector_theta_def np_rad2deg_def arctan_minus arctan_one)

text \<open>
  C7. The claim: for every vector with nonzero components, \<open>v.r = v.r\<close> and
  \<open>v.theta = v.theta\<close> leave \<open>x\<close> and \<open>y\<close> unchanged. The code: on the vector \<open>(-1, 1)\<close>,
  \<open>v.r = v.r\<close> leaves the components unchanged, and \<open>v.theta = v.theta\<close> turns them into
  \<open>(1, -1)\<close>. The getter of \<open>theta\<close> returns the arc tangent of \<open>y / x\<close>, here -45 degrees,
  which is the angle of \<open>(1, -1)\<close>; the setter places the vector at \<open>r cos \<theta>\<close>,
  \<open>r sin \<theta>\<close>. The getter does not return the angle the setter was given either: after
  \<open>v.theta = 135\<close> on the vector \<open>(1, 0)\<close>, \<open>v.theta\<close> is -45.
\<close>

theorem Vector_theta_roundtrip_fails:
  "Vector_set_r \<lparr>vec_x = Fin (- 1), vec_y = Fin 1\<rparr>
       (Vector_r \<lparr>vec_x = Fin (- 1), vec_y = Fin 1\<rparr>) =
     \<lparr>vec_x = Fin (- 1), vec_y = Fin 1\<rparr> \<and>
   Vector_theta \<lparr>vec_x = Fin (- 1), vec_y = Fin 1\<rparr> = Fin (- 45) \<and>
   Vector_set_theta \<lparr>vec_x = Fin (- 1), vec_y = Fin 1\<rparr>
       (Vector_theta \<lparr>vec_x = Fin (- 1), vec_y = Fin 1\<rparr>) =
     \<lparr>vec_x = Fin 1, vec_y = Fin (- 1)\<rparr> \<and>
   Vector_set_theta \<lparr>vec_x = Fin (- 1), vec_y = Fin 1\<rparr>
       (Vector_theta \<lparr>vec_x = Fin (- 1), vec_y = Fin 1\<rparr>) \<noteq>
     \<lparr>vec_x = Fin (- 1), vec_y = Fin 1\<rparr> \<and>
   Vector_theta (Vector_set_theta \<lparr>vec_x = Fin 1, vec_y = Fin 0\<rparr> (Fin 135)) = Fin (- 45)"
proof (intro conjI)
  show "Vector_set_r \<lparr>vec_x = Fin (- 1), vec_y = Fin 1\<rparr>
       (Vector_r \<lparr>vec_x = Fin (- 1), vec_y = Fin 1\<rparr>) =
     \<lparr>vec_x = Fin (- 1), vec_y = Fin 1\<rparr>"
    using Vector_set_r_roundtrip [of "- 1" 1] by simp
  show "Vector_theta \<lparr>vec_x = Fin (- 1), vec_y = Fin 1\<rparr> = Fin (- 45)"
    by (rule Vector_theta_second_quadrant)
  show "Vector_set_theta \<lparr>vec_x = Fin (- 1), vec_y = Fin 1\<rparr>
       (Vector_theta \<lparr>vec_x = Fin (- 1), vec_y = Fin 1\<rparr>) =
     \<lparr>vec_x = Fin 1, vec_y = Fin (- 1)\<rparr>"
    using Vector_set_theta_roundtrip [of "- 1" 1] by simp
  then show "Vector_set_theta \<lparr>vec_x = Fin (- 1), vec_y = Fin 1\<rparr>
       (Vector_theta \<lparr>vec_x = Fin (- 1), vec_y = Fin 1\<rparr>) \<noteq>
     \<lparr>vec_x = Fin (- 1), vec_y = Fin 1\<rparr>"
    by simp
  show "Vector_theta (Vector_set_theta \<lparr>vec_x = Fin 1, vec_y = Fin 0\<rparr> (Fin 135)) = Fin (- 45)"
    by (rule Vector_theta_135)
qed

section \<open>The orbit model\<close>

lemma GravBody_init_consistent: "GravBody_consistent (GravBody_init x y z vx vy vz m)"
  by (simp add: GravBody_consistent_def GravBody_init_def)

lemma GravBody_set_state_consistent:
  "GravBody_set_state b f = Inr b' \<Longrightarrow> GravBody_consistent b' \<and> GravBody_state b' = take 7 f"
  by (auto simp: GravBody_set_state_def GravBody_consistent_def GravBody_state_def getitem_def
      ebind_def take_Suc_conv_app_nth numeral_eq_Suc split: if_splits)

lemma OrbitModel_init_loop_result:
  assumes "\<forall>i \<in> set rng. i < length aList \<and> i < length eList \<and> i < length masses \<and>
             i < length names \<and> eList ! i \<noteq> 1 \<and> aList ! i \<noteq> 0"
  shows "\<exists>dic'. OrbitModel_init_loop aList eList masses names rng bodies dic =
           Inr (bodies @ map (\<lambda>i. perihelion_body (aList ! i) (eList ! i) (masses ! i)) rng, dic') \<and>
           (\<forall>name p. dic' name = Some p \<longrightarrow> dic name = Some p \<or> p < length bodies + length rng)"
  using assms
proof (induction rng arbitrary: bodies dic)
  case Nil
  then show ?case by simp
next
  case (Cons i rng)
  let ?a = "aList ! i" and ?e = "eList ! i" and ?m = "masses ! i" and ?name = "names ! i"
  from Cons.prems have i: "i < length aList" "i < length eList" "i < length masses"
    "i < length names" "?e \<noteq> 1" "?a \<noteq> 0" by auto
  have radicand: "4 * pi\<^sup>2 * ((1 + ?e) / (1 - ?e)) / ?a = 4 * pi\<^sup>2 * (1 + ?e) / ((1 - ?e) * ?a)"
    by simp
  have step: "OrbitModel_init_loop aList eList masses names (i # rng) bodies dic =
      OrbitModel_init_loop aList eList masses names rng
        (bodies @ [perihelion_body ?a ?e ?m]) (dic(?name \<mapsto> length bodies))"
    using i by (simp add: getitem_def py_div_def Let_def perihelion_body_def radicand)
  from Cons.prems have "\<forall>i \<in> set rng. i < length aList \<and> i < length eList \<and>
      i < length masses \<and> i < length names \<and> eList ! i \<noteq> 1 \<and> aList ! i \<noteq> 0" by simp
  from Cons.IH [OF this, of "bodies @ [perihelion_body ?a ?e ?m]" "dic(?name \<mapsto> length bodies)"]
  obtain dic' where
    run: "OrbitModel_init_loop aList eList masses names rng
        (bodies @ [perihelion_body ?a ?e ?m]) (dic(?name \<mapsto> length bodies)) =
      Inr ((bodies @ [perihelion_body ?a ?e ?m]) @
           map (\<lambda>i. perihelion_body (aList ! i) (eList ! i) (masses ! i)) rng, dic')" and
    refs: "\<forall>name p. dic' name = Some p \<longrightarrow>
       (dic(?name \<mapsto> length bodies)) name = Some p \<or>
       p < length (bodies @ [perihelion_body ?a ?e ?m]) + length rng"
    by blast
  have "dic name = Some p \<or> p < length bodies + length (i # rng)"
    if "dic' name = Some p" for name p
  proof -
    from refs that have "(dic(?name \<mapsto> length bodies)) name = Some p \<or>
        p < length bodies + 1 + length rng" by simp
    then show ?thesis by (cases "name = ?name") auto
  qed
  with step run show ?case by auto
qed

lemma perihelion_body_state:
  "GravBody_state (perihelion_body a e m) =
     [Fin (a * (1 - e)), Fin 0, Fin 0, Fin 0,
      np_sqrt (Fin (4 * pi\<^sup>2 * (1 + e) / ((1 - e) * a))), Fin 0, Fin m]"
  by (simp add: perihelion_body_def GravBody_init_def GravBody_state_def)

text \<open>
  C4. For orbital elements with \<open>e\<^sub>i \<noteq> 1\<close> and \<open>a\<^sub>i > 0\<close>, one list entry per body,
  the constructor of OrbitModel returns a model with one body per entry, whose state is
  \<open>[a\<^sub>i (1 - e\<^sub>i), 0, 0, 0, sqrt (GM (1 + e\<^sub>i) / ((1 - e\<^sub>i) a\<^sub>i)), 0, m\<^sub>i]\<close> with \<open>GM = 4 \<pi>\<^sup>2\<close>:
  the position on the x axis at perihelion, the velocity along the y axis. The square root is
  numpy's: of a negative number, which an eccentricity outside \<open>[-1, 1)\<close> gives, it is NaN.
\<close>

theorem OrbitModel_init_perihelion:
  assumes "length eList = length aList" and "length masses = length aList"
    and "length names = length aList"
    and "\<forall>i < length aList. eList ! i \<noteq> 1 \<and> 0 < aList ! i"
  shows "\<exists>M. OrbitModel_init aList eList masses names = Inr M \<and>
           length (om_bodies M) = length aList \<and>
           (\<forall>i < length aList.
              GravBody_state (om_bodies M ! i) =
                [Fin (aList ! i * (1 - eList ! i)), Fin 0, Fin 0,
                 Fin 0,
                 np_sqrt (Fin (4 * pi\<^sup>2 * (1 + eList ! i) / ((1 - eList ! i) * aList ! i))),
                 Fin 0,
                 Fin (masses ! i)]) \<and>
           (\<forall>i < length aList. - 1 \<le> eList ! i \<and> eList ! i < 1 \<longrightarrow>
              gb_vy (om_bodies M ! i) =
                Fin (sqrt (4 * pi\<^sup>2 * (1 + eList ! i) / ((1 - eList ! i) * aList ! i)))) \<and>
           OrbitModel_inv M"
proof -
  let ?pb = "\<lambda>i. perihelion_body (aList ! i) (eList ! i) (masses ! i)"
  have "\<forall>i \<in> set [0..<length aList]. i < length aList \<and> i < length eList \<and> i < length masses \<and>
             i < length names \<and> eList ! i \<noteq> 1 \<and> aList ! i \<noteq> 0"
    using assms by auto
  from OrbitModel_init_loop_result [OF this, of "[]" Map.empty]
  obtain dic' where
    loop: "OrbitModel_init_loop aList eList masses names [0..<length aList] [] Map.empty =
             Inr (map ?pb [0..<length aList], dic')" and
    refs: "\<forall>name p. dic' name = Some p \<longrightarrow> p < length aList"
    by auto
  define M where "M = \<lparr>om_bodies = map ?pb [0..<length aList], om_dic = dic',
     om_physics = CentralGravity_init RK4, om_time = 0\<rparr>"
  have "OrbitModel_init aList eList masses names = Inr M"
    by (simp add: OrbitModel_init_def loop M_def)
  moreover have "length (om_bodies M) = length aList" by (simp add: M_def)
  moreover have "\<forall>i < length aList.
              GravBody_state (om_bodies M ! i) =
                [Fin (aList ! i * (1 - eList ! i)), Fin 0, Fin 0,
                 Fin 0,
                 np_sqrt (Fin (4 * pi\<^sup>2 * (1 + eList ! i) / ((1 - eList ! i) * aList ! i))),
                 Fin 0,
                 Fin (masses ! i)]"
    by (simp add: M_def perihelion_body_state)
  moreover have "\<forall>i < length aList. - 1 \<le> eList ! i \<and> eList ! i < 1 \<longrightarrow>
              gb_vy (om_bodies M ! i) =
                Fin (sqrt (4 * pi\<^sup>2 * (1 + eList ! i) / ((1 - eList ! i) * aList ! i)))"
  proof (intro allI impI)
    fix i assume i: "i < length aList" and e: "- 1 \<le> eList ! i \<and> eList ! i < 1"
    from assms(4) i have "0 < aList ! i" by simp
    with e have "0 \<le> 4 * pi\<^sup>2 * (1 + eList ! i) / ((1 - eList ! i) * aList ! i)"
      by (intro divide_nonneg_pos mult_nonneg_nonneg mult_pos_pos) simp_all
    then have "\<not> 4 * pi\<^sup>2 * (1 + eList ! i) / ((1 - eList ! i) * aList ! i) < 0"
      by (simp only: not_less)
    with i show "gb_vy (om_bodies M ! i) =
        Fin (sqrt (4 * pi\<^sup>2 * (1 + eList ! i) / ((1 - eList ! i) * aList ! i)))"
      by (simp add: M_def perihelion_body_def GravBody_init_def del: mult_le_0_iff zero_le_mult_iff)
  qed
  moreover have "OrbitModel_inv M"
    using refs by (auto simp: OrbitModel_inv_def M_def perihelion_body_def GravBody_init_consistent)
  ultimately show ?thesis by blast
qed

theorem OrbitModel_init_perihelion_witness:
  "\<exists>M. OrbitModel_init [1] [0] [3] [''Earth''] = Inr M \<and>
        GravBody_state (om_bodies M ! 0) =
          [Fin 1, Fin 0, Fin 0, Fin 0, Fin (2 * pi), Fin 0, Fin 3]"
proof -
  have "sqrt (4 * pi\<^sup>2) = 2 * pi"
    by (rule real_sqrt_unique) (simp_all add: power2_eq_square)
  then show ?thesis
    using OrbitModel_init_perihelion [of "[0]" "[1]" "[3]" "[''Earth'']"]
    by auto
qed


text \<open>
  Every model the constructor returns is well formed, whatever the orbital elements.
\<close>

lemma OrbitModel_init_loop_inv:
  assumes "OrbitModel_init_loop aList eList masses names rng bodies dic = Inr (bodies', dic')"
    and "\<forall>b \<in> set bodies. GravBody_consistent b"
    and "\<forall>name p. dic name = Some p \<longrightarrow> p < length bodies"
  shows "(\<forall>b \<in> set bodies'. GravBody_consistent b) \<and>
         (\<forall>name p. dic' name = Some p \<longrightarrow> p < length bodies')"
  using assms
proof (induction rng arbitrary: bodies dic)
  case Nil
  then show ?case by simp
next
  case (Cons i rng)
  from Cons.prems(1) obtain newBody name where
    new: "GravBody_consistent newBody" and
    rest: "OrbitModel_init_loop aList eList masses names rng (bodies @ [newBody])
             (dic(name \<mapsto> length bodies)) = Inr (bodies', dic')"
    using GravBody_init_consistent
    by (auto simp: Let_def ebind_Inr_iff simp del: np_sqrt.simps) blast
  have "\<forall>b \<in> set (bodies @ [newBody]). GravBody_consistent b"
    using new Cons.prems(2) by simp
  moreover have "\<forall>n p. (dic(name \<mapsto> length bodies)) n = Some p \<longrightarrow> p < length (bodies @ [newBody])"
    using Cons.prems(3) by (auto simp: less_Suc_eq)
  ultimately show ?case by (rule Cons.IH [OF rest])
qed

lemma OrbitModel_init_inv:
  "OrbitModel_init aList eList masses names = Inr M \<Longrightarrow> OrbitModel_inv M"
proof -
  assume "OrbitModel_init aList eList masses names = Inr M"
  then obtain bodies dic where
    loop: "OrbitModel_init_loop aList eList masses names [0..<length aList] [] Map.empty =
             Inr (bodies, dic)" and
    M: "om_bodies M = bodies" "om_dic M = dic"
    by (auto simp: OrbitModel_init_def ebind_Inr_iff Let_def)
  from OrbitModel_init_loop_inv [OF loop] M show ?thesis
    by (simp add: OrbitModel_inv_def)
qed


text \<open>
  Advancing a model keeps it well formed: whatever Physics.advance returns has gone through
  the setter of \<open>state\<close>, or is the body it was given.
\<close>

lemma Physics_advance_preserves_aux:
  fixes set_state :: "'b \<Rightarrow> 's \<Rightarrow> error + 'b"
  assumes run: "Physics_advance advance get_state set_state dt_max t body dt = Some r"
  shows "(\<forall>b s b'. set_state b s = Inr b' \<longrightarrow> P b') \<longrightarrow> P body \<longrightarrow>
         (\<forall>t' body'. r = Inr (t', body') \<longrightarrow> P body')"
proof (rule Physics_advance.raw_induct
    [where P = "\<lambda>advance get_state set_state dt_max t body dt r.
        (\<forall>b s b'. set_state b s = Inr b' \<longrightarrow> P b') \<longrightarrow> P body \<longrightarrow>
        (\<forall>t' body'. r = Inr (t', body') \<longrightarrow> P body')", OF _ run])
  fix loop :: "(real \<Rightarrow> 's \<Rightarrow> real \<Rightarrow> error + real \<times> 's) \<Rightarrow> ('b \<Rightarrow> 's) \<Rightarrow> ('b \<Rightarrow> 's \<Rightarrow> error + 'b)
      \<Rightarrow> real \<Rightarrow> real \<Rightarrow> 'b \<Rightarrow> real \<Rightarrow> (error + real \<times> 'b) option"
    and advance get_state set_state dt_max t body dt r
  assume IH: "\<And>advance get_state set_state dt_max t body dt r.
      loop advance get_state set_state dt_max t body dt = Some r \<Longrightarrow>
      (\<forall>b s b'. set_state b s = Inr b' \<longrightarrow> P b') \<longrightarrow> P body \<longrightarrow>
      (\<forall>t' body'. r = Inr (t', body') \<longrightarrow> P body')"
    and step: "(if 0 < \<bar>dt\<bar>
      then let step = if dt_max < \<bar>dt\<bar> then dt_max * sgn dt else dt
           in case advance t (get_state body) step of Inl e \<Rightarrow> Some (Inl e)
              | Inr (t', s') \<Rightarrow>
                  (case set_state body s' of Inl e \<Rightarrow> Some (Inl e)
                   | Inr body' \<Rightarrow>
                       loop advance get_state set_state dt_max t' body' (double_sub dt step))
      else Some (Inr (t, body))) = Some r"
  show "(\<forall>b s b'. set_state b s = Inr b' \<longrightarrow> P b') \<longrightarrow> P body \<longrightarrow>
        (\<forall>t' body'. r = Inr (t', body') \<longrightarrow> P body')"
  proof (intro impI allI)
    fix t' body'
    assume set: "\<forall>b s b'. set_state b s = Inr b' \<longrightarrow> P b'" and body: "P body"
      and r: "r = Inr (t', body')"
    show "P body'"
    proof (cases "0 < \<bar>dt\<bar>")
      case False
      with step r body show ?thesis by simp
    next
      case True
      with step r obtain t1 s1 body1 stp where
        s1: "set_state body s1 = Inr body1" and
        rec: "loop advance get_state set_state dt_max t1 body1 (double_sub dt stp) =
                Some (Inr (t', body'))"
        by (auto simp: Let_def split: sum.splits prod.splits if_splits)
      from set s1 have "P body1" by blast
      with IH [OF rec] set show ?thesis by blast
    qed
  qed
qed

lemma CentralGravity_advance_consistent:
  assumes "CentralGravity_advance physics t body dt = Some (Inr (t', body'))"
    and "GravBody_consistent body"
  shows "GravBody_consistent body'"
proof -
  have "\<forall>b s b'. (case s of Scalar u \<Rightarrow> Inl TypeError | Array f \<Rightarrow> GravBody_set_state b f) = Inr b'
          \<longrightarrow> GravBody_consistent b'"
    using GravBody_set_state_consistent by (auto split: state.splits)
  with Physics_advance_preserves_aux
    [OF assms(1) [unfolded CentralGravity_advance_def], of GravBody_consistent] assms(2)
  show ?thesis by blast
qed

lemma Model_advance_loop_inv:
  assumes "Model_advance_loop physics time t is bodies tn = Some (Inr (bodies', tn'))"
    and "\<forall>b \<in> set bodies. GravBody_consistent b"
  shows "length bodies' = length bodies \<and> (\<forall>b \<in> set bodies'. GravBody_consistent b)"
  using assms
proof (induction "is" arbitrary: bodies tn)
  case Nil
  then show ?case by simp
next
  case (Cons i rest)
  from Cons.prems(1) obtain t1 body1 where
    i: "i < length bodies" and
    adv: "CentralGravity_advance physics time (bodies ! i) t = Some (Inr (t1, body1))" and
    rest: "Model_advance_loop physics time t rest (bodies[i := body1]) (Some t1) =
             Some (Inr (bodies', tn'))"
    by (auto simp: getitem_def split: if_splits option.splits sum.splits prod.splits)
  from i Cons.prems(2) have "GravBody_consistent (bodies ! i)" by simp
  with adv have "GravBody_consistent body1" by (rule CentralGravity_advance_consistent)
  with Cons.prems(2) have "\<forall>b \<in> set (bodies[i := body1]). GravBody_consistent b"
    by (auto dest: set_update_subset_insert [THEN subsetD])
  from Cons.IH [OF rest this] show ?case by simp
qed

lemma Model_advance_inv:
  assumes "Model_advance M t = Some (Inr (r, M'))" and "OrbitModel_inv M"
  shows "OrbitModel_inv M' \<and> om_dic M' = om_dic M"
proof -
  from assms(1) obtain bodies tn where
    loop: "Model_advance_loop (om_physics M) (om_time M) t [0..<length (om_bodies M)]
             (om_bodies M) None = Some (Inr (bodies, Some tn))" and
    M': "M' = M\<lparr>om_bodies := bodies, om_time := tn\<rparr>"
    by (auto simp: Model_advance_def split: option.splits sum.splits prod.splits)
  from assms(2) have "\<forall>b \<in> set (om_bodies M). GravBody_consistent b"
    by (simp add: OrbitModel_inv_def)
  from Model_advance_loop_inv [OF loop this] assms(2) show ?thesis
    by (simp add: M' OrbitModel_inv_def)
qed


lemma total_energy_present:
  assumes "om_dic M name = Some p"
  shows "total_energy M name =
           (Inr (Fin (4 * pi\<^sup>2) * gb_m (om_bodies M ! p) / gb_r (om_bodies M ! p) +
                 Fin (1 / 2) * gb_m (om_bodies M ! p) * np_pow_int (gb_v (om_bodies M ! p)) 2), M)"
  using assms
  by (simp add: total_energy_def get_body_def getitem_def GravBody_state_def
      GravBody_pos_def GravBody_vel_def Let_def)

lemma total_energy_absent:
  "om_dic M name = None \<Longrightarrow> total_energy M name = (Inl KeyError, M)"
  by (simp add: total_energy_def get_body_def)

text \<open>
  C5. In a well-formed model, which is what the constructor returns and \<open>advance\<close> leaves,
  for a name of the dictionary, \<open>total_energy\<close> returns \<open>GM m / r + m v\<^sup>2 / 2\<close> with
  \<open>GM = 4 \<pi>\<^sup>2\<close>, \<open>m\<close> the mass, \<open>r\<close> the magnitude of the position and \<open>v\<close> that of the
  velocity of the body the name refers to, and returns the model as it was. With real
  components and a position off the origin the value is that real number.
\<close>

theorem total_energy_formula:
  assumes "OrbitModel_inv M" and "om_dic M name = Some p"
  shows "total_energy M name =
           (Inr (Fin (4 * pi\<^sup>2) * gb_m (om_bodies M ! p) /
                   np_sqrt (np_square (gb_x (om_bodies M ! p)) + np_square (gb_y (om_bodies M ! p)) +
                            np_square (gb_z (om_bodies M ! p))) +
                 Fin (1 / 2) * gb_m (om_bodies M ! p) *
                   np_pow_int
                     (np_sqrt (np_square (gb_vx (om_bodies M ! p)) +
                               np_square (gb_vy (om_bodies M ! p)) +
                               np_square (gb_vz (om_bodies M ! p)))) 2), M) \<and>
         (\<forall>x y z vx vy vz m.
            GravBody_state (om_bodies M ! p) = [Fin x, Fin y, Fin z, Fin vx, Fin vy, Fin vz, Fin m] \<and>
            (x, y, z) \<noteq> (0, 0, 0) \<longrightarrow>
            total_energy M name =
              (Inr (Fin (4 * pi\<^sup>2 * m / sqrt (x\<^sup>2 + y\<^sup>2 + z\<^sup>2) +
                         1 / 2 * m * (sqrt (vx\<^sup>2 + vy\<^sup>2 + vz\<^sup>2))\<^sup>2)), M))"
proof -
  let ?b = "om_bodies M ! p"
  from assms have "p < length (om_bodies M)" by (auto simp: OrbitModel_inv_def)
  with assms(1) have cons: "GravBody_consistent ?b" by (auto simp: OrbitModel_inv_def)
  then have rv:
    "gb_r ?b = np_sqrt (np_square (gb_x ?b) + np_square (gb_y ?b) + np_square (gb_z ?b))"
    "gb_v ?b = np_sqrt (np_square (gb_vx ?b) + np_square (gb_vy ?b) + np_square (gb_vz ?b))"
    by (simp_all add: GravBody_consistent_def)
  have general: "total_energy M name =
           (Inr (Fin (4 * pi\<^sup>2) * gb_m ?b /
                   np_sqrt (np_square (gb_x ?b) + np_square (gb_y ?b) + np_square (gb_z ?b)) +
                 Fin (1 / 2) * gb_m ?b *
                   np_pow_int
                     (np_sqrt (np_square (gb_vx ?b) + np_square (gb_vy ?b) + np_square (gb_vz ?b))) 2), M)"
    using total_energy_present [OF assms(2)] by (simp only: rv)
  have finite: "total_energy M name =
              (Inr (Fin (4 * pi\<^sup>2 * m / sqrt (x\<^sup>2 + y\<^sup>2 + z\<^sup>2) +
                         1 / 2 * m * (sqrt (vx\<^sup>2 + vy\<^sup>2 + vz\<^sup>2))\<^sup>2)), M)"
    if st: "GravBody_state ?b = [Fin x, Fin y, Fin z, Fin vx, Fin vy, Fin vz, Fin m]"
      and nz: "(x, y, z) \<noteq> (0, 0, 0)" for x y z vx vy vz m
  proof -
    from st have f: "gb_x ?b = Fin x" "gb_y ?b = Fin y" "gb_z ?b = Fin z" "gb_vx ?b = Fin vx"
      "gb_vy ?b = Fin vy" "gb_vz ?b = Fin vz" "gb_m ?b = Fin m"
      by (simp_all add: GravBody_state_def)
    from nz have "0 < x * x + y * y + z * z" by (intro sum_squares3_pos) auto
    then have "0 < sqrt (x * x + y * y + z * z)" by (rule real_sqrt_gt_zero)
    then have r: "sqrt (x * x + y * y + z * z) \<noteq> 0" "\<not> x * x + y * y + z * z < 0"
      using \<open>0 < x * x + y * y + z * z\<close> by linarith+
    have v: "\<not> vx * vx + vy * vy + vz * vz < 0"
      by (simp add: not_less)
    show ?thesis
      unfolding general f np_square_def
      using r v by (simp add: power2_eq_square)
  qed
  from general finite show ?thesis by blast
qed

theorem total_energy_formula_witness:
  "total_energy
     \<lparr>om_bodies = [GravBody_init (Fin 3) (Fin 4) (Fin 0) (Fin 0) (Fin 2) (Fin 0) (Fin 5)],
      om_dic = [''Earth'' \<mapsto> 0], om_physics = CentralGravity_init RK4, om_time = 0\<rparr> ''Earth'' =
   (Inr (Fin (4 * pi\<^sup>2 * 5 / 5 + 1 / 2 * 5 * 2\<^sup>2)),
    \<lparr>om_bodies = [GravBody_init (Fin 3) (Fin 4) (Fin 0) (Fin 0) (Fin 2) (Fin 0) (Fin 5)],
      om_dic = [''Earth'' \<mapsto> 0], om_physics = CentralGravity_init RK4, om_time = 0\<rparr>)"
proof -
  let ?M = "\<lparr>om_bodies = [GravBody_init (Fin 3) (Fin 4) (Fin 0) (Fin 0) (Fin 2) (Fin 0) (Fin 5)],
      om_dic = [''Earth'' \<mapsto> 0], om_physics = CentralGravity_init RK4, om_time = 0\<rparr>"
  have inv: "OrbitModel_inv ?M"
    by (simp add: OrbitModel_inv_def GravBody_init_consistent)
  have dic: "om_dic ?M ''Earth'' = Some 0" by simp
  have st: "GravBody_state (om_bodies ?M ! 0) = [Fin 3, Fin 4, Fin 0, Fin 0, Fin 2, Fin 0, Fin 5] \<and>
      ((3::real), (4::real), (0::real)) \<noteq> (0, 0, 0)"
    by (simp add: GravBody_state_def GravBody_init_def)
  have s25: "sqrt 25 = 5" by (rule real_sqrt_unique) simp_all
  from total_energy_formula [OF inv dic, THEN conjunct2, rule_format, OF st]
  show ?thesis by (simp add: s25)
qed

text \<open>
  C8. For a name of the dictionary \<open>get_body\<close> returns the body the name is bound to, and
  \<open>total_energy\<close> returns a number; for any other name both raise KeyError. In every case the
  model is returned as it was.
\<close>

theorem get_body_lookup:
  "(\<forall>p. om_dic M name = Some p \<longrightarrow>
      get_body M name = (Inr p, M) \<and> (\<exists>E. total_energy M name = (Inr E, M))) \<and>
   (om_dic M name = None \<longrightarrow>
      get_body M name = (Inl KeyError, M) \<and> total_energy M name = (Inl KeyError, M))"
  using total_energy_present [of M name] total_energy_absent [of M name]
  by (auto simp: get_body_def)

theorem get_body_lookup_witness:
  "get_body \<lparr>om_bodies = [GravBody_init (Fin 3) (Fin 4) (Fin 0) (Fin 0) (Fin 2) (Fin 0) (Fin 5)],
      om_dic = [''Earth'' \<mapsto> 0], om_physics = CentralGravity_init RK4, om_time = 0\<rparr> ''Earth'' =
     (Inr 0, \<lparr>om_bodies = [GravBody_init (Fin 3) (Fin 4) (Fin 0) (Fin 0) (Fin 2) (Fin 0) (Fin 5)],
      om_dic = [''Earth'' \<mapsto> 0], om_physics = CentralGravity_init RK4, om_time = 0\<rparr>) \<and>
   get_body \<lparr>om_bodies = [GravBody_init (Fin 3) (Fin 4) (Fin 0) (Fin 0) (Fin 2) (Fin 0) (Fin 5)],
      om_dic = [''Earth'' \<mapsto> 0], om_physics = CentralGravity_init RK4, om_time = 0\<rparr> ''Pluto'' =
     (Inl KeyError, \<lparr>om_bodies = [GravBody_init (Fin 3) (Fin 4) (Fin 0) (Fin 0) (Fin 2) (Fin 0) (Fin 5)],
      om_dic = [''Earth'' \<mapsto> 0], om_physics = CentralGravity_init RK4, om_time = 0\<rparr>) \<and>
   total_energy \<lparr>om_bodies = [GravBody_init (Fin 3) (Fin 4) (Fin 0) (Fin 0) (Fin 2) (Fin 0) (Fin 5)],
      om_dic = [''Earth'' \<mapsto> 0], om_physics = CentralGravity_init RK4, om_time = 0\<rparr> ''Pluto'' =
     (Inl KeyError, \<lparr>om_bodies = [GravBody_init (Fin 3) (Fin 4) (Fin 0) (Fin 0) (Fin 2) (Fin 0) (Fin 5)],
      om_dic = [''Earth'' \<mapsto> 0], om_physics = CentralGravity_init RK4, om_time = 0\<rparr>)"
proof -
  let ?M = "\<lparr>om_bodies = [GravBody_init (Fin 3) (Fin 4) (Fin 0) (Fin 0) (Fin 2) (Fin 0) (Fin 5)],
      om_dic = [''Earth'' \<mapsto> 0], om_physics = CentralGravity_init RK4, om_time = 0\<rparr>"
  have "om_dic ?M ''Earth'' = Some 0" "om_dic ?M ''Pluto'' = None" by simp_all
  with get_body_lookup [of ?M "''Earth''"] get_body_lookup [of ?M "''Pluto''"]
  show ?thesis by blast
qed


section \<open>Removing a body from the collection\<close>

lemma pop_scan_map_of:
  assumes "distinct names" "\<forall>n \<in> set names. map_of d n \<noteq> None"
  shows "\<exists>d'. pop_scan names k d = Inr d' \<and>
           (\<forall>n. map_of d' n = (if n \<in> set names then shift_index k (map_of d n) else map_of d n)) \<and>
           (distinct (map fst d) \<longrightarrow> distinct (map fst d'))"
  using assms
proof (induction names arbitrary: d)
  case Nil
  then show ?case by simp
next
  case (Cons name names)
  from Cons.prems obtain v where v: "map_of d name = Some v" by auto
  from Cons.prems have dist: "distinct names" and fresh: "name \<notin> set names" by auto
  define d2 where "d2 = (if v = k then AList.delete name d
                         else if v > k then AList.update name (v - 1) d else d)"
  have m2: "map_of d2 n = (if n = name then shift_index k (Some v) else map_of d n)" for n
    by (auto simp: d2_def shift_index_def update_conv' delete_conv' v)
  have "\<forall>n \<in> set names. map_of d2 n \<noteq> None"
    using Cons.prems fresh by (auto simp: m2)
  from Cons.IH [OF dist this] obtain d' where
    d': "pop_scan names k d2 = Inr d'"
    "\<forall>n. map_of d' n = (if n \<in> set names then shift_index k (map_of d2 n) else map_of d2 n)"
    "distinct (map fst d2) \<longrightarrow> distinct (map fst d')"
    by blast
  have "distinct (map fst d) \<longrightarrow> distinct (map fst d2)"
    by (simp add: d2_def distinct_update distinct_delete)
  with d'(3) have dd: "distinct (map fst d) \<longrightarrow> distinct (map fst d')" by blast
  have "pop_scan (name # names) k d = pop_scan names k d2"
    by (simp add: dict_getitem_def v d2_def ebind_def)
  with d' have "pop_scan (name # names) k d = Inr d'" by simp
  moreover have "map_of d' n =
      (if n \<in> set (name # names) then shift_index k (map_of d n) else map_of d n)" for n
    using d'(2) fresh by (auto simp: m2 v)
  ultimately show ?case using dd by blast
qed

lemma norm_index_nat: "0 \<le> k \<Longrightarrow> k < int n \<Longrightarrow> norm_index n k = Inr (nat k)"
  by (simp add: norm_index_def)

lemma delete_at_nat:
  "0 \<le> k \<Longrightarrow> k < int (length xs) \<Longrightarrow>
   delete_at xs k = Inr (take (nat k) xs @ drop (Suc (nat k)) xs)"
  by (simp add: delete_at_def norm_index_nat ebind_def)

text \<open>
  C9. In a consistent collection of \<open>n\<close> bodies, for a row index \<open>0 \<le> k < n\<close>, \<open>pop(k)\<close>
  returns, removes row \<open>k\<close> of the state matrix, leaves a name mapped below \<open>k\<close> as it was,
  maps a name mapped above \<open>k\<close> to one less, drops the name mapped to \<open>k\<close>, binds no new name,
  and leaves every value of the dictionary a row index of the \<open>n - 1\<close> remaining rows; the
  collection is consistent again.
\<close>

theorem GravBodies_pop_shifts:
  assumes "GravBodies_consistent g" and "0 \<le> k" and "k < int (length (gbs_state g))"
  shows "\<exists>ret g'. GravBodies_pop g (IntIdx k) = Inr (ret, g') \<and>
           gbs_state g' = take (nat k) (gbs_state g) @ drop (Suc (nat k)) (gbs_state g) \<and>
           int (length (gbs_state g')) = int (length (gbs_state g)) - 1 \<and>
           (\<forall>name v. map_of (gbs_dict g) name = Some v \<longrightarrow>
              map_of (gbs_dict g') name =
                (if v = k then None else if v > k then Some (v - 1) else Some v)) \<and>
           (\<forall>name. map_of (gbs_dict g) name = None \<longrightarrow> map_of (gbs_dict g') name = None) \<and>
           (\<forall>name v. map_of (gbs_dict g') name = Some v \<longrightarrow>
              0 \<le> v \<and> v < int (length (gbs_state g'))) \<and>
           GravBodies_consistent g'"
proof -
  let ?n = "length (gbs_state g)"
  from assms(1) have lens: "length (gbs_bodies g) = ?n" "length (gbs_mass g) = ?n"
    and dist: "distinct (map fst (gbs_dict g))"
    and range: "list_all (\<lambda>(name, v). 0 \<le> v \<and> v < int ?n) (gbs_dict g)"
    by (simp_all add: GravBodies_consistent_def)
  have vals: "0 \<le> v \<and> v < int ?n" if "map_of (gbs_dict g) name = Some v" for name v
    using range map_of_SomeD [OF that] by (auto simp: list_all_iff)
  define body where "body = (gbs_bodies g ! nat k)\<lparr>lgb_state := gbs_state g ! nat k\<rparr>"
  define g1 where "g1 = g\<lparr>gbs_bodies := (gbs_bodies g)[nat k := body]\<rparr>"
  have get: "GravBodies_getitem g (IntIdx k) = Inr (body, g1)"
    using assms(2,3) lens
    by (simp add: GravBodies_getitem_def norm_index_nat ebind_def Let_def body_def g1_def)
  have keys: "\<forall>n \<in> set (map fst (gbs_dict g1)). map_of (gbs_dict g1) n \<noteq> None"
    by (auto simp: g1_def map_of_eq_None_iff)
  from pop_scan_map_of [OF _ keys, of k] dist obtain d' where
    scan: "pop_scan (map fst (gbs_dict g1)) k (gbs_dict g1) = Inr d'" and
    d': "\<forall>n. map_of d' n = (if n \<in> set (map fst (gbs_dict g1))
                               then shift_index k (map_of (gbs_dict g1) n)
                               else map_of (gbs_dict g1) n)" and
    dist': "distinct (map fst d')"
    by (auto simp: g1_def)
  have d'': "map_of d' n = shift_index k (map_of (gbs_dict g) n)" for n
    using d' by (cases "map_of (gbs_dict g) n")
      (auto simp: g1_def shift_index_def map_of_eq_None_iff [symmetric])
  define g' where "g' = \<lparr>gbs_bodies = take (nat k) (gbs_bodies g1) @ drop (Suc (nat k)) (gbs_bodies g1),
     gbs_state = take (nat k) (gbs_state g) @ drop (Suc (nat k)) (gbs_state g),
     gbs_mass = take (nat k) (gbs_mass g) @ drop (Suc (nat k)) (gbs_mass g), gbs_dict = d'\<rparr>"
  have del:
    "delete_at (gbs_state g1) k = Inr (take (nat k) (gbs_state g) @ drop (Suc (nat k)) (gbs_state g))"
    "delete_at (gbs_mass g1) k = Inr (take (nat k) (gbs_mass g) @ drop (Suc (nat k)) (gbs_mass g))"
    "delete_at (gbs_bodies g1) k =
       Inr (take (nat k) (gbs_bodies g1) @ drop (Suc (nat k)) (gbs_bodies g1))"
    using assms(2,3) lens by (simp_all add: delete_at_nat g1_def)
  have pop: "GravBodies_pop g (IntIdx k) = Inr (body, g')"
    by (simp add: GravBodies_pop_def get del scan g'_def)
  have len': "int (length (gbs_state g')) = int ?n - 1"
    using assms(2,3) by (auto simp: g'_def)
  have shifted: "map_of (gbs_dict g') name =
      (if v = k then None else if v > k then Some (v - 1) else Some v)"
    if "map_of (gbs_dict g) name = Some v" for name v
    using that by (simp add: g'_def d'' shift_index_def)
  have absent: "map_of (gbs_dict g') name = None" if "map_of (gbs_dict g) name = None" for name
    using that by (simp add: g'_def d'' shift_index_def)
  have valid: "0 \<le> v \<and> v < int (length (gbs_state g'))"
    if "map_of (gbs_dict g') name = Some v" for name v
  proof -
    from that obtain w where w: "map_of (gbs_dict g) name = Some w"
      "(if w = k then None else if w > k then Some (w - 1) else Some w) = Some v"
      by (cases "map_of (gbs_dict g) name") (auto simp: g'_def d'' shift_index_def)
    from vals [OF w(1)] w(2) assms(2,3) show ?thesis
      unfolding len' by (auto split: if_splits)
  qed
  have "list_all (\<lambda>(name, v). 0 \<le> v \<and> v < int (length (gbs_state g'))) (gbs_dict g')"
    unfolding list_all_iff
  proof (clarify)
    fix name v assume "(name, v) \<in> set (gbs_dict g')"
    with dist' have "map_of (gbs_dict g') name = Some v" by (simp add: g'_def)
    then show "0 \<le> v \<and> v < int (length (gbs_state g'))" by (rule valid)
  qed
  then have cons: "GravBodies_consistent g'"
    using dist' lens by (simp add: GravBodies_consistent_def g'_def g1_def)
  from pop len' shifted absent valid cons show ?thesis
    by (intro exI [of _ body] exI [of _ g']) (simp add: g'_def)
qed


theorem GravBodies_pop_shifts_witness:
  "\<exists>ret g'.
     GravBodies_pop
       \<lparr>gbs_bodies = [\<lparr>lgb_state = [], lgb_mass = Fin 1\<rparr>, \<lparr>lgb_state = [], lgb_mass = Fin 2\<rparr>,
                      \<lparr>lgb_state = [], lgb_mass = Fin 3\<rparr>],
        gbs_state = [[Fin 1], [Fin 2], [Fin 3]],
        gbs_mass = [Fin 1, Fin 2, Fin 3],
        gbs_dict = [(''a'', 0), (''b'', 1), (''c'', 2)]\<rparr> (IntIdx 1) = Inr (ret, g') \<and>
     gbs_state g' = [[Fin 1], [Fin 3]] \<and>
     map_of (gbs_dict g') ''a'' = Some 0 \<and>
     map_of (gbs_dict g') ''b'' = None \<and>
     map_of (gbs_dict g') ''c'' = Some 1"
proof -
  let ?g = "\<lparr>gbs_bodies = [\<lparr>lgb_state = [], lgb_mass = Fin 1\<rparr>, \<lparr>lgb_state = [], lgb_mass = Fin 2\<rparr>,
                      \<lparr>lgb_state = [], lgb_mass = Fin 3\<rparr>],
        gbs_state = [[Fin 1], [Fin 2], [Fin 3]],
        gbs_mass = [Fin 1, Fin 2, Fin 3],
        gbs_dict = [(''a'', 0), (''b'', 1), (''c'', 2)]\<rparr>"
  have c: "GravBodies_consistent ?g" by (simp add: GravBodies_consistent_def)
  have k: "(0::int) \<le> 1" "1 < int (length (gbs_state ?g))" by simp_all
  from GravBodies_pop_shifts [OF c k] obtain ret g' where
    pop: "GravBodies_pop ?g (IntIdx 1) = Inr (ret, g')" and
    st: "gbs_state g' = take (nat 1) (gbs_state ?g) @ drop (Suc (nat 1)) (gbs_state ?g)" and
    sh: "\<forall>name v. map_of (gbs_dict ?g) name = Some v \<longrightarrow>
           map_of (gbs_dict g') name = (if v = 1 then None else if v > 1 then Some (v - 1) else Some v)"
    by blast
  have "map_of (gbs_dict ?g) ''a'' = Some 0" "map_of (gbs_dict ?g) ''b'' = Some 1"
    "map_of (gbs_dict ?g) ''c'' = Some 2" by simp_all
  with sh have "map_of (gbs_dict g') ''a'' = Some 0" "map_of (gbs_dict g') ''b'' = None"
    "map_of (gbs_dict g') ''c'' = Some 1" by fastforce+
  moreover from st have "gbs_state g' = [[Fin 1], [Fin 3]]" by simp
  ultimately show ?thesis using pop by blast
qed


end
